theory Spec2Isabelle
  imports Main "HOL-Library.Word"
begin

section \<open>Strings: the functions of Go's \<open>strings\<close> package the program calls\<close>

text \<open>
  A Go string is a sequence of bytes; it is modelled as \<open>string\<close> (a list of \<open>char\<close>).
\<close>

definition HasPrefix :: "string \<Rightarrow> string \<Rightarrow> bool" where
  "HasPrefix s p = (take (length p) s = p)"

definition TrimLeft :: "string \<Rightarrow> string \<Rightarrow> string" where
  "TrimLeft s cutset = dropWhile (\<lambda>c. c \<in> set cutset) s"

text \<open>
  \<open>strings.EqualFold\<close> compares under Unicode simple case folding. The model folds the
  ASCII letters and compares every other byte as it is.
\<close>

definition toLower :: "char \<Rightarrow> char" where
  "toLower c =
     (case map_of (zip ''ABCDEFGHIJKLMNOPQRSTUVWXYZ'' ''abcdefghijklmnopqrstuvwxyz'') c of
        Some d \<Rightarrow> d
      | None \<Rightarrow> c)"

definition EqualFold :: "string \<Rightarrow> string \<Rightarrow> bool" where
  "EqualFold s t = (map toLower s = map toLower t)"

text \<open>
  \<open>strings.Split(s, sep)\<close>: the substrings between the non-overlapping occurrences of
  \<open>sep\<close>, scanning from the left. \<open>splitAcc\<close> carries the substring read so far. For the
  empty separator Go splits after every UTF-8 sequence; the model splits after every byte.
\<close>

function splitAcc :: "string \<Rightarrow> string \<Rightarrow> string \<Rightarrow> string list" where
  "splitAcc sep cur s =
     (if s = [] then [cur]
      else if sep \<noteq> [] \<and> HasPrefix s sep then cur # splitAcc sep [] (drop (length sep) s)
      else splitAcc sep (cur @ [hd s]) (tl s))"
  by pat_completeness auto
termination
  by (relation "measure (\<lambda>(sep, cur, s). length s)") auto

definition Split :: "string \<Rightarrow> string \<Rightarrow> string list" where
  "Split s sep = (if sep = [] then map (\<lambda>c. [c]) s else splitAcc sep [] s)"


section \<open>Errors\<close>

text \<open>
  A Go \<open>error\<close> value is either made by \<open>fmt.Errorf\<close> (a message), or is the
  \<open>*strconv.NumError\<close> of a failed conversion (function, input, cause), or is whatever a
  field's own \<open>UnmarshalText\<close> returns (a message).
\<close>

datatype error =
    ErrorString string
  | NumError string string string
  | UnmarshalError string

definition Quote :: "string \<Rightarrow> string" where
  "Quote s = [CHR 0x22] @ s @ [CHR 0x22]"

fun Error :: "error \<Rightarrow> string" where
  "Error (ErrorString m) = m"
| "Error (NumError fn num cause) = ''strconv.'' @ fn @ '': parsing '' @ Quote num @ '': '' @ cause"
| "Error (UnmarshalError m) = m"

definition ErrSyntax :: string where
  "ErrSyntax = ''invalid syntax''"

definition ErrRange :: string where
  "ErrRange = ''value out of range''"

section \<open>Conversions: the functions of Go's \<open>strconv\<close> package the program calls\<close>

definition ParseBool :: "string \<Rightarrow> error + bool" where
  "ParseBool str =
     (if str \<in> set [''1'', ''t'', ''T'', ''TRUE'', ''true'', ''True''] then Inr True
      else if str \<in> set [''0'', ''f'', ''F'', ''FALSE'', ''false'', ''False''] then Inr False
      else Inl (NumError ''ParseBool'' str ErrSyntax))"

definition FormatBool :: "bool \<Rightarrow> string" where
  "FormatBool b = (if b then ''true'' else ''false'')"

text \<open>\<open>strconv.Itoa\<close>: the decimal numeral of an integer.\<close>

function natDigits :: "nat \<Rightarrow> string" where
  "natDigits n =
     (if n < 10 then [''0123456789'' ! n] else natDigits (n div 10) @ [''0123456789'' ! (n mod 10)])"
  by pat_completeness auto
termination
  by (relation "measure id") auto

definition Itoa :: "int \<Rightarrow> string" where
  "Itoa i = (if i < 0 then CHR ''-'' # natDigits (nat (- i)) else natDigits (nat i))"

text \<open>
  The value of a digit in a base up to 36, as \<open>strconv.ParseUint\<close> reads it: \<open>0\<close> to
  \<open>9\<close>, then the letters in either case.
\<close>

fun indexFrom :: "nat \<Rightarrow> char \<Rightarrow> string \<Rightarrow> nat option" where
  "indexFrom n c [] = None"
| "indexFrom n c (x # xs) = (if c = x then Some n else indexFrom (n + 1) c xs)"

definition digitVal :: "char \<Rightarrow> nat option" where
  "digitVal c = indexFrom 0 (toLower c) ''0123456789abcdefghijklmnopqrstuvwxyz''"

fun parseDigits :: "nat \<Rightarrow> nat \<Rightarrow> string \<Rightarrow> nat option" where
  "parseDigits base acc [] = Some acc"
| "parseDigits base acc (c # cs) =
     (case digitVal c of
        None \<Rightarrow> None
      | Some d \<Rightarrow> if d < base then parseDigits base (acc * base + d) cs else None)"

text \<open>
  \<open>strconv.ParseInt(s, base, bitSize)\<close>. The empty string is a syntax error; a leading
  sign is picked off; a base other than 0 and 2 to 36 is refused before any digit is read;
  a bit size outside 0 to 64 is refused; the digits are read in the base, and a value
  outside the signed range of the bit size is a range error. Base 0, which reads the base
  from a prefix of the numeral, is never requested by the program and is modelled as the
  prefixes \<open>0x\<close>, \<open>0b\<close>, \<open>0o\<close> and \<open>0\<close> without underscore separators.
\<close>

definition basePrefix :: "string \<Rightarrow> nat \<times> string" where
  "basePrefix s =
     (if 3 \<le> length s \<and> map toLower (take 2 s) = ''0x'' then (16, drop 2 s)
      else if 3 \<le> length s \<and> map toLower (take 2 s) = ''0b'' then (2, drop 2 s)
      else if 3 \<le> length s \<and> map toLower (take 2 s) = ''0o'' then (8, drop 2 s)
      else if take 1 s = ''0'' then (8, drop 1 s)
      else (10, s))"

definition ParseInt :: "string \<Rightarrow> int \<Rightarrow> int \<Rightarrow> error + int" where
  "ParseInt s base bitSize =
     (if s = [] then Inl (NumError ''ParseInt'' s ErrSyntax)
      else
        let neg = (hd s = CHR ''-'');
            u = (if hd s = CHR ''+'' \<or> hd s = CHR ''-'' then tl s else s)
        in
        if u = [] then Inl (NumError ''ParseInt'' s ErrSyntax)
        else if \<not> (base = 0 \<or> (2 \<le> base \<and> base \<le> 36)) then
          Inl (NumError ''ParseInt'' s (''invalid base '' @ Itoa base))
        else if bitSize < 0 \<or> 64 < bitSize then
          Inl (NumError ''ParseInt'' s (''invalid bit size '' @ Itoa bitSize))
        else
          let (b, ds) = (if base = 0 then basePrefix u else (nat base, u));
              bits = (if bitSize = 0 then 64 else nat bitSize)
          in
          (case parseDigits b 0 ds of
             None \<Rightarrow> Inl (NumError ''ParseInt'' s ErrSyntax)
           | Some n \<Rightarrow>
               if \<not> neg \<and> 2 ^ (bits - 1) \<le> n then Inl (NumError ''ParseInt'' s ErrRange)
               else if neg \<and> 2 ^ (bits - 1) < n then Inl (NumError ''ParseInt'' s ErrRange)
               else Inr (if neg then - int n else int n)))"

text \<open>
  \<open>strconv.Atoi(s)\<close> is \<open>ParseInt(s, 10, 0)\<close> with the error renamed; \<open>int\<close> has 64 bits.
\<close>

definition Atoi :: "string \<Rightarrow> error + int" where
  "Atoi s =
     (case ParseInt s 10 0 of
        Inl (NumError fn num cause) \<Rightarrow> Inl (NumError ''Atoi'' num cause)
      | Inl e \<Rightarrow> Inl e
      | Inr n \<Rightarrow> Inr n)"

section \<open>Types and values: what the program sees through Go's \<open>reflect\<close> package\<close>

text \<open>
  A \<open>reflect.Type\<close> is a term of \<open>gtype\<close>: the predeclared types the program converts
  to, any other type without structure of its own (\<open>TOther\<close>, with its name), pointers,
  slices, structures, the empty interface, and defined types \<open>type N U\<close> (\<open>TNamed\<close>, with
  the name, whether \<open>*N\<close> has the method \<open>UnmarshalText\<close>, and the underlying type).
  A field of a structure has a name, a package path (empty for an exported field) and a
  tag, kept as the list of its \<open>key:"value"\<close> pairs. The name of a type stands for both
  \<open>t.Name()\<close> and \<open>t.String()\<close>. Types are finite terms, so a type that refers to itself
  is outside the model.
\<close>

datatype kind =
    KBool | KInt | KInt8 | KInt16 | KInt32 | KInt64 | KFloat32 | KFloat64 | KString
  | KPtr | KSlice | KStruct | KInterface | KOther

datatype gtype =
    TBool | TInt | TInt8 | TInt16 | TInt32 | TInt64 | TFloat32 | TFloat64 | TString
  | TOther string
  | TPtr gtype
  | TSlice gtype
  | TStruct "sfield list"
  | TInterface
  | TNamed string bool gtype
and sfield =
    StructField (Name: string) (PkgPath: string) (Tag: "(string \<times> string) list") (Type: gtype)

text \<open>
  A value is a term of \<open>gval\<close>. A pointer holds the value it points to (\<open>None\<close> is the nil
  pointer): the program never makes two pointers to one structure, so no store is needed.
  A slice is \<open>None\<close> when nil. A float is its IEEE bit pattern.
\<close>

datatype gval =
    VBool bool
  | VInt int
  | VFloat32 "32 word"
  | VFloat64 "64 word"
  | VString string
  | VPtr "gval option"
  | VSlice "gval list option"
  | VStruct "gval list"
  | VInterface "(gtype \<times> gval) option"
  | VOther

text \<open>A computation that may panic.\<close>

datatype 'a res = Ok 'a | Panic string

fun Kind :: "gtype \<Rightarrow> kind" where
  "Kind TBool = KBool"
| "Kind TInt = KInt"
| "Kind TInt8 = KInt8"
| "Kind TInt16 = KInt16"
| "Kind TInt32 = KInt32"
| "Kind TInt64 = KInt64"
| "Kind TFloat32 = KFloat32"
| "Kind TFloat64 = KFloat64"
| "Kind TString = KString"
| "Kind (TOther n) = KOther"
| "Kind (TPtr t) = KPtr"
| "Kind (TSlice t) = KSlice"
| "Kind (TStruct fs) = KStruct"
| "Kind TInterface = KInterface"
| "Kind (TNamed n m u) = Kind u"

text \<open>
  \<open>t.Elem()\<close> is the element type of a pointer or slice type and panics on every other
  kind; the program calls it on pointer and slice types only, and the model returns the
  type itself elsewhere.
\<close>

fun Elem :: "gtype \<Rightarrow> gtype" where
  "Elem (TPtr t) = t"
| "Elem (TSlice t) = t"
| "Elem (TNamed n m u) = Elem u"
| "Elem t = t"

fun TypeName :: "gtype \<Rightarrow> string" where
  "TypeName TBool = ''bool''"
| "TypeName TInt = ''int''"
| "TypeName TInt8 = ''int8''"
| "TypeName TInt16 = ''int16''"
| "TypeName TInt32 = ''int32''"
| "TypeName TInt64 = ''int64''"
| "TypeName TFloat32 = ''float32''"
| "TypeName TFloat64 = ''float64''"
| "TypeName TString = ''string''"
| "TypeName (TOther n) = n"
| "TypeName (TNamed n m u) = n"
| "TypeName t = []"

text \<open>
  \<open>t.String()\<close>, used in messages only; an unnamed structure type is abbreviated.
\<close>

fun TypeString :: "gtype \<Rightarrow> string" where
  "TypeString (TPtr t) = ''*'' @ TypeString t"
| "TypeString (TSlice t) = ''[]'' @ TypeString t"
| "TypeString (TStruct fs) = ''struct {...}''"
| "TypeString TInterface = ''interface {}''"
| "TypeString t = TypeName t"

fun fieldsOf :: "gtype \<Rightarrow> sfield list" where
  "fieldsOf (TStruct fs) = fs"
| "fieldsOf (TNamed n m u) = fieldsOf u"
| "fieldsOf t = []"

definition NumField :: "gtype \<Rightarrow> nat" where
  "NumField t = length (fieldsOf t)"

text \<open>\<open>t.Field(i)\<close> panics when \<open>i\<close> is out of range: \<open>None\<close>.\<close>

definition Field :: "gtype \<Rightarrow> nat \<Rightarrow> sfield option" where
  "Field t i = (if i < NumField t then Some (fieldsOf t ! i) else None)"

definition IsExported :: "sfield \<Rightarrow> bool" where
  "IsExported f = (PkgPath f = [])"

text \<open>\<open>f.Tag.Get(key)\<close>: the value of the key, or the empty string.\<close>

definition TagGet :: "sfield \<Rightarrow> string \<Rightarrow> string" where
  "TagGet f key = (case map_of (Tag f) key of Some v \<Rightarrow> v | None \<Rightarrow> [])"

text \<open>The zero value of a type, as \<open>reflect.New\<close> and \<open>reflect.MakeSlice\<close> make it.\<close>

primrec zero :: "gtype \<Rightarrow> gval" and zeroField :: "sfield \<Rightarrow> gval" where
  "zero TBool = VBool False"
| "zero TInt = VInt 0"
| "zero TInt8 = VInt 0"
| "zero TInt16 = VInt 0"
| "zero TInt32 = VInt 0"
| "zero TInt64 = VInt 0"
| "zero TFloat32 = VFloat32 0"
| "zero TFloat64 = VFloat64 0"
| "zero TString = VString []"
| "zero (TOther n) = VOther"
| "zero (TPtr t) = VPtr None"
| "zero (TSlice t) = VSlice None"
| "zero (TStruct fs) = VStruct (map zeroField fs)"
| "zero TInterface = VInterface None"
| "zero (TNamed n m u) = zero u"
| "zeroField (StructField n p tg t) = zero t"

definition IsNil :: "gval \<Rightarrow> bool" where
  "IsNil v = (v = VPtr None \<or> v = VSlice None \<or> v = VInterface None)"

text \<open>\<open>reflect.New(t)\<close>: a pointer to a new zero value of \<open>t\<close>.\<close>

definition New :: "gtype \<Rightarrow> gval" where
  "New t = VPtr (Some (zero t))"

text \<open>\<open>reflect.MakeSlice(t, n, n)\<close>: the elements of a new slice of \<open>n\<close> zero values.\<close>

definition MakeSlice :: "gtype \<Rightarrow> nat \<Rightarrow> gval list" where
  "MakeSlice t n = replicate n (zero (Elem t))"

text \<open>
  The program reaches two things outside itself: \<open>strconv.ParseFloat\<close>, whose rounding
  is not modelled, and the \<open>UnmarshalText\<close> method of a defined type, which is the
  caller's code. Both are parameters: \<open>ParseFloat x s bitSize\<close> is the float64 read or
  the error, \<open>UnmarshalText x n text v\<close> is what the method of the type named \<open>n\<close> makes
  of the value \<open>v\<close> it is called on, with the error it returns.
\<close>

record extern =
  ParseFloat :: "string \<Rightarrow> int \<Rightarrow> error + 64 word"
  UnmarshalText :: "string \<Rightarrow> string \<Rightarrow> gval \<Rightarrow> gval \<times> error option"

section \<open>The program\<close>

subsection \<open>The target of \<open>ApplyTo\<close>\<close>

definition FlagTagName :: string where
  "FlagTagName = ''flag''"

definition sliceDelimiter :: string where
  "sliceDelimiter = '',''"

definition isStructPointer :: "gtype \<Rightarrow> bool" where
  "isStructPointer t = (Kind t = KPtr \<and> Kind (Elem t) = KStruct)"

text \<open>
  A \<open>reflect.Value\<close> is a type with a value of it, or the zero Value (\<open>None\<close>), which is
  what \<open>Elem\<close> gives for a nil pointer or a nil interface. The argument \<open>str interface{}\<close>
  of \<open>ApplyTo\<close> is the same pair, \<open>None\<close> being the nil interface.
\<close>

type_synonym rvalue = "(gtype \<times> gval) option"

definition ValueKind :: "rvalue \<Rightarrow> kind option" where
  "ValueKind v = (case v of None \<Rightarrow> None | Some (t, x) \<Rightarrow> Some (Kind t))"

definition ValueElem :: "rvalue \<Rightarrow> rvalue res" where
  "ValueElem v =
     (case v of
        None \<Rightarrow> Panic ''reflect: call of reflect.Value.Elem on zero Value''
      | Some (t, x) \<Rightarrow>
          (case x of
             VPtr None \<Rightarrow> Ok None
           | VPtr (Some y) \<Rightarrow> Ok (Some (Elem t, y))
           | VInterface None \<Rightarrow> Ok None
           | VInterface (Some (t', y)) \<Rightarrow> Ok (Some (t', y))
           | _ \<Rightarrow> Panic ''reflect: call of reflect.Value.Elem on a value that is no pointer''))"

text \<open>
  \<open>getStructValue\<close>: \<open>reflect.TypeOf\<close> of the nil interface is the nil \<open>Type\<close>, and
  \<open>isStructPointer\<close> calls \<open>Kind\<close> on it, which panics.
\<close>

definition getStructValue :: "rvalue \<Rightarrow> (error + rvalue) res" where
  "getStructValue str =
     (case str of
        None \<Rightarrow> Panic ''invalid memory address or nil pointer dereference''
      | Some (t, x) \<Rightarrow>
          if \<not> isStructPointer t then
            Ok (Inl (ErrorString ''flags can only be applied to a struct pointer''))
          else
            (case ValueElem str of
               Panic m \<Rightarrow> Panic m
             | Ok v \<Rightarrow>
                 if ValueKind v = Some KInterface then
                   (case ValueElem v of
                      Panic m \<Rightarrow> Panic m
                    | Ok v1 \<Rightarrow>
                        (case ValueElem v1 of Panic m \<Rightarrow> Panic m | Ok v2 \<Rightarrow> Ok (Inr v2)))
                 else Ok (Inr v)))"

text \<open>
  The structure \<open>getStructValue\<close> returns is the one \<open>str\<close> points to, and the program
  writes into it; \<open>putStructValue\<close> is \<open>str\<close> with the structure as the program left it.
\<close>

definition putStructValue :: "rvalue \<Rightarrow> rvalue \<Rightarrow> rvalue" where
  "putStructValue str v =
     (case (str, v) of
        (Some (t, VPtr (Some old)), Some (t', new)) \<Rightarrow> Some (t, VPtr (Some new))
      | _ \<Rightarrow> str)"

subsection \<open>The value of a flag\<close>

definition findFlagValue :: "string list \<Rightarrow> gtype \<Rightarrow> error + string \<times> string list" where
  "findFlagValue args fldType =
     (let value = (if length args > 0 \<and> \<not> HasPrefix (args ! 0) ''-'' then args ! 0 else [])
      in
      if Kind fldType = KBool \<and> (value = [] \<or> isl (ParseBool value)) then
        Inr (FormatBool True, args)
      else if value = [] then Inl (ErrorString ''no value found'')
      else Inr (value, drop 1 args))"

subsection \<open>Setting a field from a string\<close>

text \<open>
  \<open>stringToType\<close> returns an \<open>interface{}\<close>: the value with its dynamic type.
\<close>

definition stringToType :: "extern \<Rightarrow> string \<Rightarrow> gtype \<Rightarrow> error + gtype \<times> gval" where
  "stringToType x s t =
     (case Kind t of
        KString \<Rightarrow> Inr (TString, VString s)
      | KBool \<Rightarrow> (case ParseBool s of Inl e \<Rightarrow> Inl e | Inr b \<Rightarrow> Inr (TBool, VBool b))
      | KInt \<Rightarrow> (case Atoi s of Inl e \<Rightarrow> Inl e | Inr n \<Rightarrow> Inr (TInt, VInt n))
      | KInt64 \<Rightarrow> (case ParseInt s 64 64 of Inl e \<Rightarrow> Inl e | Inr n \<Rightarrow> Inr (TInt64, VInt n))
      | KInt32 \<Rightarrow> (case ParseInt s 64 64 of Inl e \<Rightarrow> Inl e | Inr n \<Rightarrow> Inr (TInt64, VInt n))
      | KInt16 \<Rightarrow> (case ParseInt s 64 64 of Inl e \<Rightarrow> Inl e | Inr n \<Rightarrow> Inr (TInt64, VInt n))
      | KInt8 \<Rightarrow> (case ParseInt s 64 64 of Inl e \<Rightarrow> Inl e | Inr n \<Rightarrow> Inr (TInt64, VInt n))
      | KFloat64 \<Rightarrow>
          (case ParseFloat x s 64 of Inl e \<Rightarrow> Inl e | Inr f \<Rightarrow> Inr (TFloat64, VFloat64 f))
      | KFloat32 \<Rightarrow>
          (case ParseFloat x s 32 of Inl e \<Rightarrow> Inl e | Inr f \<Rightarrow> Inr (TFloat64, VFloat64 f))
      | _ \<Rightarrow> Inl (ErrorString (TypeName t @ '' is an unsupported field type'')))"

text \<open>
  \<open>fld.Set(v)\<close> panics unless the type of \<open>v\<close> is assignable to the type of the field.
  The field's type is no interface here, so that is \<open>directlyAssignable\<close> of \<open>reflect\<close>:
  the same type, or two types of one kind and one underlying type that are not both named.
\<close>

fun hasName :: "gtype \<Rightarrow> bool" where
  "hasName (TPtr t) = False"
| "hasName (TSlice t) = False"
| "hasName (TStruct fs) = False"
| "hasName TInterface = False"
| "hasName (TOther n) = (n \<noteq> [])"
| "hasName t = True"

fun underlying :: "gtype \<Rightarrow> gtype" where
  "underlying (TNamed n m u) = underlying u"
| "underlying t = t"

definition directlyAssignable :: "gtype \<Rightarrow> gtype \<Rightarrow> bool" where
  "directlyAssignable T V =
     (T = V \<or> (\<not> (hasName T \<and> hasName V) \<and> Kind T = Kind V \<and> underlying T = underlying V))"

text \<open>
  \<open>asTextUnmarshaler\<close>: the type asked for the method is the field's own when that is a
  pointer, and the pointer to it otherwise. \<open>Implements\<close> holds of the pointer to a
  defined type that has the method.
\<close>

fun Implements :: "gtype \<Rightarrow> string option" where
  "Implements (TPtr (TNamed n m u)) = (if m then Some n else None)"
| "Implements t = None"

definition asTextUnmarshaler :: "gtype \<Rightarrow> string option" where
  "asTextUnmarshaler t = Implements (if Kind t \<noteq> KPtr then TPtr t else t)"

text \<open>
  \<open>setValue\<close> and \<open>setFieldSlice\<close> write into the field they are given: they take the
  field's type and value and return the value it has afterwards, with the error. The loop
  of \<open>setFieldSlice\<close> is \<open>setElems\<close>: \<open>i\<close> is the index, \<open>inst\<close> the new slice. A method
  called on a nil pointer is taken to dereference it.
\<close>

function setValue :: "extern \<Rightarrow> string \<Rightarrow> gtype \<Rightarrow> gval \<Rightarrow> (gval \<times> error option) res"
  and setFieldSlice :: "extern \<Rightarrow> string list \<Rightarrow> gtype \<Rightarrow> gval \<Rightarrow> (gval \<times> error option) res"
  and setElems :: "extern \<Rightarrow> gtype \<Rightarrow> string list \<Rightarrow> nat \<Rightarrow> gval list \<Rightarrow> (gval list \<times> error option) res"
where
  "setValue x value t fld =
     (case asTextUnmarshaler t of
        Some n \<Rightarrow>
          (if Kind t \<noteq> KPtr then Ok (UnmarshalText x n value fld)
           else
             (case fld of
                VPtr (Some p) \<Rightarrow>
                  (case UnmarshalText x n value p of (p', e) \<Rightarrow> Ok (VPtr (Some p'), e))
              | _ \<Rightarrow> Panic ''invalid memory address or nil pointer dereference''))
      | None \<Rightarrow>
          if Kind t = KPtr then
            (case (if IsNil fld then New (Elem t) else fld) of
               VPtr (Some p) \<Rightarrow>
                 (case setValue x value (Elem t) p of
                    Panic m \<Rightarrow> Panic m
                  | Ok (p', e) \<Rightarrow> Ok (VPtr (Some p'), e))
             | _ \<Rightarrow> Panic ''reflect: call of reflect.Value.Elem on a value that is no pointer'')
          else if Kind t = KSlice then setFieldSlice x (Split value sliceDelimiter) t fld
          else
            (case stringToType x value t of
               Inl err \<Rightarrow> Ok (fld, Some err)
             | Inr (st, sv) \<Rightarrow>
                 if directlyAssignable t st then Ok (sv, None)
                 else Panic (''reflect.Set: value of type '' @ TypeString st
                               @ '' is not assignable to type '' @ TypeString t)))"
| "setFieldSlice x ss t fld =
     (if Kind t \<noteq> KSlice then Panic ''reflect.MakeSlice of non-slice type''
      else
        (case setElems x (Elem t) ss 0 (MakeSlice t (length ss)) of
           Panic m \<Rightarrow> Panic m
         | Ok (inst, Some err) \<Rightarrow> Ok (fld, Some err)
         | Ok (inst, None) \<Rightarrow> Ok (VSlice (Some inst), None)))"
| "setElems x et [] i inst = Ok (inst, None)"
| "setElems x et (s # ss) i inst =
     (if \<not> i < length inst then Panic ''reflect: slice index out of range''
      else
        (case setValue x s et (inst ! i) of
           Panic m \<Rightarrow> Panic m
         | Ok (v, Some err) \<Rightarrow> Ok (inst[i := v], Some err)
         | Ok (v, None) \<Rightarrow> setElems x et ss (i + 1) (inst[i := v])))"
  by pat_completeness auto
termination
proof -
  have less: "Kind t = KPtr \<or> Kind t = KSlice \<Longrightarrow> size (Elem t) < size t" for t
    by (induction t) auto
  show ?thesis
    by (relation "inv_image (less_than <*lex*> less_than <*lex*> less_than)
          (\<lambda>a. case a of
             Inl (x, value, t, fld) \<Rightarrow> (size t, 2, 0)
           | Inr (Inl (x, ss, t, fld)) \<Rightarrow> (size t, 1, 0)
           | Inr (Inr (x, et, ss, i, inst)) \<Rightarrow> (size et, 3, length ss))")
       (auto simp: less)
qed

subsection \<open>Finding the field of a flag\<close>

fun isSubArgTag :: "string list \<Rightarrow> bool" where
  "isSubArgTag [] = False"
| "isSubArgTag (tag # tags) = (if tag = ''+'' then True else isSubArgTag tags)"

fun isNameInTag :: "string \<Rightarrow> string list \<Rightarrow> bool" where
  "isNameInTag name [] = False"
| "isNameInTag name (t # tags) =
     (if t = ''omitempty'' \<or> t = ''-'' \<or> t = ''+'' then isNameInTag name tags
      else if EqualFold t name then True
      else isNameInTag name tags)"

text \<open>
  \<open>findFieldIndex\<close> has two loops. \<open>scanFields\<close> is the first, over the fields of \<open>t\<close>
  from index \<open>i\<close>: it returns the path of a field that matches (\<open>Inl\<close>), or the indices
  of the fields tagged as sub arguments (\<open>Inr\<close>), or panics at a field so tagged that is
  no structure and no pointer to one. \<open>searchSubArgs\<close> is the second, over those indices.
  \<open>NumField\<close> panics on a type that is no structure.
\<close>

function scanFields ::
  "string \<Rightarrow> gtype \<Rightarrow> nat list \<Rightarrow> nat \<Rightarrow> nat list \<Rightarrow> (nat list + nat list) res"
where
  "scanFields name t parents i subArgIndexes =
     (if i < NumField t then
        (let f = fieldsOf t ! i in
         if \<not> IsExported f then scanFields name t parents (i + 1) subArgIndexes
         else if EqualFold name (Name f) then Ok (Inl (parents @ [i]))
         else
           (let tags = Split (TagGet f FlagTagName) '','' in
            if isNameInTag name tags then Ok (Inl (parents @ [i]))
            else if isSubArgTag tags then
              (if \<not> isStructPointer (Type f) \<and> Kind (Type f) \<noteq> KStruct then
                 Panic (''Field '' @ Name f @ '' in '' @ TypeString t
                          @ '' is tagged as a sub argument field, but is not a struct or pointer to a struct'')
               else scanFields name t parents (i + 1) (subArgIndexes @ [i]))
            else scanFields name t parents (i + 1) subArgIndexes))
      else Ok (Inr subArgIndexes))"
  by pat_completeness auto
termination
  by (relation "measure (\<lambda>(name, t, parents, i, subArgIndexes). NumField t - i)") auto

function findFieldIndex :: "string \<Rightarrow> gtype \<Rightarrow> nat list \<Rightarrow> nat list res"
  and searchSubArgs :: "string \<Rightarrow> gtype \<Rightarrow> nat list \<Rightarrow> nat list \<Rightarrow> nat list res"
where
  "findFieldIndex name t parents =
     (if Kind t = KPtr then findFieldIndex name (Elem t) parents
      else if Kind t \<noteq> KStruct then Panic ''reflect: NumField of non-struct type''
      else
        (case scanFields name t parents 0 [] of
           Panic m \<Rightarrow> Panic m
         | Ok (Inl index) \<Rightarrow> Ok index
         | Ok (Inr subArgIndexes) \<Rightarrow> searchSubArgs name t parents subArgIndexes))"
| "searchSubArgs name t parents [] = Ok []"
| "searchSubArgs name t parents (i # subArgIndexes) =
     (case Field t i of
        None \<Rightarrow> Panic ''reflect: Field index out of bounds''
      | Some f \<Rightarrow>
          (case findFieldIndex name (Type f) (parents @ [i]) of
             Panic m \<Rightarrow> Panic m
           | Ok is \<Rightarrow> if length is > 0 then Ok is else searchSubArgs name t parents subArgIndexes))"
  by pat_completeness auto
termination
proof -
  have elem: "Kind t = KPtr \<Longrightarrow> size (Elem t) < size t" for t
    by (induction t) auto
  have mem: "f \<in> set fs \<Longrightarrow> size (Type f) < Suc (size_list size fs)" for f fs
    by (induction fs) (auto, (cases f, simp)+)
  have fld: "f \<in> set (fieldsOf t) \<Longrightarrow> size (Type f) < size t" for f t
    by (induction t) (auto dest: mem)
  have field: "Field t i = Some f \<Longrightarrow> size (Type f) < size t" for t i f
    by (auto simp: Field_def NumField_def intro: fld split: if_splits)
  show ?thesis
    by (relation "inv_image (less_than <*lex*> less_than <*lex*> less_than)
          (\<lambda>a. case a of
             Inl (name, t, parents) \<Rightarrow> (size t, 1, 0)
           | Inr (name, t, parents, is) \<Rightarrow> (size t, 0, length is))")
       (auto simp: elem field)
qed

text \<open>
  \<open>ensureNotNil\<close> walks the structure \<open>v\<close> of type \<open>t\<close> along the path and returns it
  with a new zero value under every nil pointer on the way.
\<close>

fun ensureNotNil :: "gtype \<Rightarrow> gval \<Rightarrow> nat list \<Rightarrow> gval res" where
  "ensureNotNil t v [] = Ok v"
| "ensureNotNil t v (i # index) =
     (case (Field t i, v) of
        (Some f, VStruct vs) \<Rightarrow>
          if \<not> i < length vs then Panic ''reflect: Field index out of range''
          else
            (let ft = Type f; fld = vs ! i in
             if Kind ft = KPtr then
               (case (if IsNil fld then New (Elem ft) else fld) of
                  VPtr (Some p) \<Rightarrow>
                    (case ensureNotNil (Elem ft) p index of
                       Panic m \<Rightarrow> Panic m
                     | Ok p' \<Rightarrow> Ok (VStruct (vs[i := VPtr (Some p')])))
                | _ \<Rightarrow> Panic ''reflect: call of reflect.Value.Elem on a value that is no pointer'')
             else
               (case ensureNotNil ft fld index of
                  Panic m \<Rightarrow> Panic m
                | Ok fld' \<Rightarrow> Ok (VStruct (vs[i := fld']))))
      | _ \<Rightarrow> Panic ''reflect: call of reflect.Value.Field on a value that is no struct'')"

text \<open>
  \<open>v.FieldByIndex(index)\<close> is a handle on a field inside \<open>v\<close>: from the second index on
  it steps through a pointer to a structure, and panics when that pointer is nil.
  \<open>FieldByIndex\<close> reads the field; \<open>atIndex f t v index\<close> runs \<open>f\<close> on the field (its
  type, its value) and returns \<open>v\<close> with the field as \<open>f\<close> left it, and what \<open>f\<close>
  returned.
\<close>

definition throughPointer :: "gtype \<Rightarrow> nat list \<Rightarrow> bool" where
  "throughPointer ft index = (index \<noteq> [] \<and> Kind ft = KPtr \<and> Kind (Elem ft) = KStruct)"

fun FieldByIndex :: "gtype \<Rightarrow> gval \<Rightarrow> nat list \<Rightarrow> (gtype \<times> gval) res" where
  "FieldByIndex t v [] = Ok (t, v)"
| "FieldByIndex t v (i # index) =
     (case (Field t i, v) of
        (Some fd, VStruct vs) \<Rightarrow>
          if \<not> i < length vs then Panic ''reflect: Field index out of range''
          else
            (let ft = Type fd; fld = vs ! i in
             if throughPointer ft index then
               (case fld of
                  VPtr (Some p) \<Rightarrow> FieldByIndex (Elem ft) p index
                | _ \<Rightarrow> Panic ''reflect: indirection through nil pointer to embedded struct'')
             else FieldByIndex ft fld index)
      | _ \<Rightarrow> Panic ''reflect: call of reflect.Value.Field on a value that is no struct'')"

fun atIndex ::
  "(gtype \<Rightarrow> gval \<Rightarrow> (gval \<times> 'a) res) \<Rightarrow> gtype \<Rightarrow> gval \<Rightarrow> nat list \<Rightarrow> (gval \<times> 'a) res"
where
  "atIndex f t v [] = f t v"
| "atIndex f t v (i # index) =
     (case (Field t i, v) of
        (Some fd, VStruct vs) \<Rightarrow>
          if \<not> i < length vs then Panic ''reflect: Field index out of range''
          else
            (let ft = Type fd; fld = vs ! i in
             if throughPointer ft index then
               (case fld of
                  VPtr (Some p) \<Rightarrow>
                    (case atIndex f (Elem ft) p index of
                       Panic m \<Rightarrow> Panic m
                     | Ok (p', r) \<Rightarrow> Ok (VStruct (vs[i := VPtr (Some p')]), r))
                | _ \<Rightarrow> Panic ''reflect: indirection through nil pointer to embedded struct'')
             else
               (case atIndex f ft fld index of
                  Panic m \<Rightarrow> Panic m
                | Ok (fld', r) \<Rightarrow> Ok (VStruct (vs[i := fld']), r)))
      | _ \<Rightarrow> Panic ''reflect: call of reflect.Value.Field on a value that is no struct'')"

text \<open>
  A \<open>flagField\<close> holds the \<open>reflect.Value\<close> of the field: its type, and where it lies in
  the structure. \<open>findField\<close> and \<open>newFlagField\<close> return the structure too, as
  \<open>ensureNotNil\<close> left it.
\<close>

record flagField =
  fldType :: gtype
  fldIndex :: "nat list"

definition findField :: "string \<Rightarrow> rvalue \<Rightarrow> (rvalue \<times> (error + flagField)) res" where
  "findField name v =
     (case v of
        None \<Rightarrow> Panic ''reflect: call of reflect.Value.Type on zero Value''
      | Some (t, sv) \<Rightarrow>
          (case findFieldIndex name t [] of
             Panic m \<Rightarrow> Panic m
           | Ok index \<Rightarrow>
               if length index = 0 then
                 Ok (v, Inl (ErrorString (''field '' @ name @ '' not found in '' @ TypeString t)))
               else
                 (case ensureNotNil t sv index of
                    Panic m \<Rightarrow> Panic m
                  | Ok sv' \<Rightarrow>
                      (case FieldByIndex t sv' index of
                         Panic m \<Rightarrow> Panic m
                       | Ok (ft, fv) \<Rightarrow>
                           Ok (Some (t, sv'), Inr \<lparr>fldType = ft, fldIndex = index\<rparr>)))))"

definition newFlagField :: "string \<Rightarrow> rvalue \<Rightarrow> (rvalue \<times> (error + flagField)) res" where
  "newFlagField name v = findField name v"

definition FlagType :: "flagField \<Rightarrow> gtype" where
  "FlagType ff = fldType ff"

definition SetValue :: "extern \<Rightarrow> flagField \<Rightarrow> string \<Rightarrow> rvalue \<Rightarrow> (rvalue \<times> error option) res" where
  "SetValue x ff value v =
     (case v of
        None \<Rightarrow> Panic ''reflect: call of reflect.Value.Set on zero Value''
      | Some (t, sv) \<Rightarrow>
          (case atIndex (\<lambda>ft fv. setValue x value ft fv) t sv (fldIndex ff) of
             Panic m \<Rightarrow> Panic m
           | Ok (sv', e) \<Rightarrow> Ok (Some (t, sv'), e)))"

subsection \<open>\<open>ApplyTo\<close>\<close>

text \<open>Go's \<open>append\<close> on a slice of strings that may be nil.\<close>

definition append_slice :: "string list option \<Rightarrow> string \<Rightarrow> string list option" where
  "append_slice xs a = (case xs of None \<Rightarrow> Some [a] | Some ys \<Rightarrow> Some (ys @ [a]))"

text \<open>
  The loop of \<open>ApplyTo\<close>, from the index \<open>i\<close>, on the structure \<open>v\<close>: it returns the
  structure as it is when the function returns, the unused arguments and the error.
\<close>

function ApplyTo_loop ::
  "extern \<Rightarrow> string list \<Rightarrow> nat \<Rightarrow> rvalue \<Rightarrow> string list option
     \<Rightarrow> (rvalue \<times> string list option \<times> error option) res"
where
  "ApplyTo_loop x args i v unused =
     (if i < length args then
        (let arg = args ! i in
         if \<not> HasPrefix arg ''-'' then ApplyTo_loop x args (i + 1) v (append_slice unused arg)
         else
           (case newFlagField (TrimLeft arg ''-'') v of
              Panic m \<Rightarrow> Panic m
            | Ok (v1, Inl err) \<Rightarrow> ApplyTo_loop x args (i + 1) v1 (append_slice unused arg)
            | Ok (v1, Inr fld) \<Rightarrow>
                (let vals = drop (i + 1) args in
                 case findFlagValue vals (FlagType fld) of
                   Inl err \<Rightarrow> Ok (v1, None, Some (ErrorString (arg @ ''  '' @ Error err)))
                 | Inr (argValue, remain) \<Rightarrow>
                     (case SetValue x fld argValue v1 of
                        Panic m \<Rightarrow> Panic m
                      | Ok (v2, Some err) \<Rightarrow>
                          Ok (v2, None,
                              Some (ErrorString ([CHR 0x27] @ arg @ [CHR 0x27] @ ''  '' @ Error err)))
                      | Ok (v2, None) \<Rightarrow>
                          ApplyTo_loop x args (i + (length vals - length remain) + 1) v2 unused))))
      else Ok (v, unused, None))"
  by pat_completeness auto
termination
  by (relation "measure (\<lambda>(x, args, i, v, unused). length args - i)") auto

definition ApplyTo ::
  "extern \<Rightarrow> string list \<Rightarrow> rvalue \<Rightarrow> (rvalue \<times> string list option \<times> error option) res"
where
  "ApplyTo x args str =
     (case getStructValue str of
        Panic m \<Rightarrow> Panic m
      | Ok (Inl err) \<Rightarrow> Ok (str, None, Some err)
      | Ok (Inr v) \<Rightarrow>
          (case ApplyTo_loop x args 0 v None of
             Panic m \<Rightarrow> Panic m
           | Ok (v', unused, err) \<Rightarrow> Ok (putStructValue str v', unused, err)))"

section \<open>Definitions for the statements\<close>

text \<open>
  A structure to run the program on: \<open>Config\<close> has a boolean, an integer, a slice of
  strings with two aliases, and a pointer to \<open>Sub\<close> tagged as a sub argument.
\<close>

definition exampleSub :: gtype where
  "exampleSub = TNamed ''Sub'' False (TStruct
     [StructField ''Name'' [] [] TString,
      StructField ''Rate'' [] [] TFloat32,
      StructField ''Big'' [] [] TInt64])"

definition exampleConfig :: gtype where
  "exampleConfig = TNamed ''Config'' False (TStruct
     [StructField ''Verbose'' [] [(''flag'', ''v'')] TBool,
      StructField ''Count'' [] [(''flag'', ''count,c'')] TInt,
      StructField ''Tags'' [] [(''flag'', ''tags,t'')] (TSlice TString),
      StructField ''Sub'' [] [(''flag'', ''+'')] (TPtr exampleSub)])"

text \<open>
  Parameters to run the program with: \<open>ParseFloat\<close> reads \<open>1.5\<close> as Go does and
  refuses every other string, and \<open>UnmarshalText\<close> stores the text.
\<close>

definition exampleExtern :: extern where
  "exampleExtern =
     \<lparr>ParseFloat = (\<lambda>s bitSize.
          if s = ''1.5'' then Inr 0x3FF8000000000000
          else Inl (NumError ''ParseFloat'' s ErrSyntax)),
      UnmarshalText = (\<lambda>n text v. (VString text, None))\<rparr>"

text \<open>
  What it means that a field has been set. \<open>putAt t v index w\<close> is the structure \<open>v\<close>
  with \<open>w\<close> in the field that \<open>FieldByIndex\<close> reads at the path; \<open>assign v ff w\<close> is
  that for the field of a \<open>flagField\<close>, and \<open>fieldOf v ff\<close> reads the field.
\<close>

fun putAt :: "gtype \<Rightarrow> gval \<Rightarrow> nat list \<Rightarrow> gval \<Rightarrow> gval" where
  "putAt t v [] w = w"
| "putAt t v (i # index) w =
     (case (Field t i, v) of
        (Some fd, VStruct vs) \<Rightarrow>
          (let ft = Type fd; fld = vs ! i in
           if throughPointer ft index then
             (case fld of
                VPtr (Some p) \<Rightarrow> VStruct (vs[i := VPtr (Some (putAt (Elem ft) p index w))])
              | _ \<Rightarrow> v)
           else VStruct (vs[i := putAt ft fld index w]))
      | _ \<Rightarrow> v)"

definition assign :: "rvalue \<Rightarrow> flagField \<Rightarrow> gval \<Rightarrow> rvalue" where
  "assign v ff w = map_option (\<lambda>(t, sv). (t, putAt t sv (fldIndex ff) w)) v"

definition fieldOf :: "rvalue \<Rightarrow> flagField \<Rightarrow> (gtype \<times> gval) res" where
  "fieldOf v ff =
     (case v of
        None \<Rightarrow> Panic ''reflect: call of reflect.Value.FieldByIndex on zero Value''
      | Some (t, sv) \<Rightarrow> FieldByIndex t sv (fldIndex ff))"

text \<open>
  The words of the specification of the field resolver. The aliases of a field are the
  elements of its \<open>flag\<close> tag; a field matches a name when it is exported and its name or
  one of its aliases equals the name whatever the case of the letters; a field is promoted
  when it is exported and tagged \<open>+\<close>, and misconfigured when it is promoted and is no
  structure and no pointer to one.
\<close>

definition flagTags :: "sfield \<Rightarrow> string list" where
  "flagTags f = Split (TagGet f FlagTagName) '',''"

definition fieldMatches :: "string \<Rightarrow> sfield \<Rightarrow> bool" where
  "fieldMatches name f =
     (IsExported f \<and> (EqualFold name (Name f) \<or> isNameInTag name (flagTags f)))"

definition promoted :: "sfield \<Rightarrow> bool" where
  "promoted f = (IsExported f \<and> isSubArgTag (flagTags f))"

definition misconfigured :: "sfield \<Rightarrow> bool" where
  "misconfigured f =
     (promoted f \<and> \<not> isStructPointer (Type f) \<and> Kind (Type f) \<noteq> KStruct)"

text \<open>
  A structure that declares a promoted pointer to \<open>Sub\<close> before a field \<open>Name\<close> of its
  own, the name of a field of \<open>Sub\<close> too.
\<close>

definition exampleShadow :: gtype where
  "exampleShadow = TNamed ''Shadow'' False (TStruct
     [StructField ''Sub'' [] [(''flag'', ''+'')] (TPtr exampleSub),
      StructField ''Name'' [] [] TString])"



text \<open>
  A structure with a field of a defined boolean type, \<open>type Flag bool\<close>, that has no
  \<open>UnmarshalText\<close>.
\<close>

definition exampleFlags :: gtype where
  "exampleFlags = TNamed ''Flags'' False (TStruct
     [StructField ''Verbose'' [] [] (TNamed ''Flag'' False TBool)])"

section \<open>Properties\<close>

declare setValue.simps [simp del] setFieldSlice.simps [simp del] scanFields.simps [simp del]
  findFieldIndex.simps [simp del] ApplyTo_loop.simps [simp del] splitAcc.simps [simp del]

text \<open>The equations that run the program on the example.\<close>

lemmas run_simps = setValue.simps setFieldSlice.simps scanFields.simps findFieldIndex.simps
  splitAcc.simps Split_def HasPrefix_def TrimLeft_def EqualFold_def toLower_def
  exampleConfig_def exampleSub_def exampleExtern_def NumField_def Field_def IsExported_def
  TagGet_def FlagTagName_def sliceDelimiter_def isStructPointer_def asTextUnmarshaler_def
  stringToType_def directlyAssignable_def findField_def newFlagField_def FlagType_def
  SetValue_def IsNil_def New_def MakeSlice_def Atoi_def ParseInt_def ParseBool_def digitVal_def
  ErrSyntax_def ErrRange_def Let_def findFlagValue_def FormatBool_def append_slice_def
  throughPointer_def assign_def fieldOf_def

lemmas match_simps = fieldMatches_def flagTags_def promoted_def misconfigured_def
  All_less_Suc eval_nat_numeral

subsection \<open>Conversions\<close>

lemma ParseInt_base64: "isl (ParseInt s 64 64)"
  by (simp add: ParseInt_def Let_def)

text \<open>
  Claim C2 says that a field of type int64, int32, int16 or int8 takes a decimal numeral
  in range as its value. The program calls \<open>ParseInt\<close> with base 64 for these four
  kinds, and \<open>ParseInt\<close> refuses that base: the conversion fails on every string, and
  the field keeps its value. On the numeral \<open>42\<close> and an int64 field the error is
  "invalid base 64".
\<close>

theorem C2_sized_integers_never_parse:
  "isl (stringToType x s TInt64) \<and> isl (stringToType x s TInt32)
   \<and> isl (stringToType x s TInt16) \<and> isl (stringToType x s TInt8)
   \<and> stringToType x ''42'' TInt64 = Inl (NumError ''ParseInt'' ''42'' ''invalid base 64'')
   \<and> setValue x ''42'' TInt64 (VInt 0)
       = Ok (VInt 0, Some (NumError ''ParseInt'' ''42'' ''invalid base 64''))"
proof -
  have a: "isl (stringToType x s t)" if "Kind t \<in> {KInt64, KInt32, KInt16, KInt8}" for t
    using that ParseInt_base64 [of s]
    by (auto simp: stringToType_def split: sum.splits)
  have b: "stringToType x ''42'' TInt64 = Inl (NumError ''ParseInt'' ''42'' ''invalid base 64'')"
    by (simp add: stringToType_def ParseInt_def Itoa_def)
  have c: "setValue x ''42'' TInt64 (VInt 0)
       = Ok (VInt 0, Some (NumError ''ParseInt'' ''42'' ''invalid base 64''))"
    by (simp add: setValue.simps [of _ _ TInt64] asTextUnmarshaler_def b)
  show ?thesis using a b c by simp
qed

theorem C2_sized_integers_never_parse_witness:
  "isl (stringToType exampleExtern ''7'' TInt64) \<and> isl (stringToType exampleExtern ''7'' TInt32)
   \<and> isl (stringToType exampleExtern ''7'' TInt16) \<and> isl (stringToType exampleExtern ''7'' TInt8)
   \<and> stringToType exampleExtern ''42'' TInt64
       = Inl (NumError ''ParseInt'' ''42'' ''invalid base 64'')
   \<and> setValue exampleExtern ''42'' TInt64 (VInt 0)
       = Ok (VInt 0, Some (NumError ''ParseInt'' ''42'' ''invalid base 64''))"
  by (rule C2_sized_integers_never_parse [of exampleExtern "''7''"])

text \<open>
  Claim C9 says that a float32 field takes the parsed and narrowed value without error.
  \<open>ParseFloat\<close> returns a float64 whatever the bit size, and \<open>Set\<close> panics on a float64
  for a float32 field: whenever the string parses, \<open>setValue\<close> panics.
\<close>

theorem C9_float32_set_panics:
  assumes "ParseFloat x s 32 = Inr f"
  shows "setValue x s TFloat32 fld
     = Panic ''reflect.Set: value of type float64 is not assignable to type float32''"
  using assms
  by (simp add: setValue.simps [of _ _ TFloat32] asTextUnmarshaler_def stringToType_def
      directlyAssignable_def)

theorem C9_float32_set_panics_witness:
  "ParseFloat exampleExtern ''1.5'' 32 = Inr 0x3FF8000000000000
   \<and> setValue exampleExtern ''1.5'' TFloat32 (VFloat32 0)
       = Panic ''reflect.Set: value of type float64 is not assignable to type float32''"
proof -
  have h: "ParseFloat exampleExtern ''1.5'' 32 = Inr 0x3FF8000000000000"
    by (simp add: exampleExtern_def)
  show ?thesis using h C9_float32_set_panics [OF h] by simp
qed

subsection \<open>The target\<close>

text \<open>
  Claim C3 says that \<open>ApplyTo\<close> accepts a pointer to an interface that wraps a
  structure. \<open>getStructValue\<close> unwraps an interface, but only after \<open>isStructPointer\<close>
  has refused every type that is no pointer to a structure: the branch is never reached,
  and \<open>ApplyTo\<close> returns the error for a pointer to an interface as for any other type
  that is no pointer to a structure, with the target as it was and a nil list.
\<close>

theorem C3_pointer_to_interface_refused:
  assumes "\<not> isStructPointer t"
  shows "ApplyTo x args (Some (t, v))
     = Ok (Some (t, v), None, Some (ErrorString ''flags can only be applied to a struct pointer''))"
  using assms by (simp add: ApplyTo_def getStructValue_def)

theorem C3_pointer_to_interface_refused_witness:
  "\<not> isStructPointer (TPtr TInterface)
   \<and> ApplyTo exampleExtern [''-v'']
       (Some (TPtr TInterface,
              VPtr (Some (VInterface (Some (TPtr exampleConfig, New exampleConfig))))))
     = Ok (Some (TPtr TInterface,
                 VPtr (Some (VInterface (Some (TPtr exampleConfig, New exampleConfig))))),
           None, Some (ErrorString ''flags can only be applied to a struct pointer''))"
proof -
  have h: "\<not> isStructPointer (TPtr TInterface)"
    by (simp add: isStructPointer_def)
  show ?thesis using h C3_pointer_to_interface_refused [OF h] by simp
qed

subsection \<open>Slices\<close>










lemma setElems_first_error:
  assumes "k < length ss" "i + length ss \<le> length inst"
    and "\<And>j. i \<le> j \<Longrightarrow> j < length inst \<Longrightarrow> inst ! j = z"
    and "setValue x (ss ! k) et z = Ok (w, Some err)"
    and "\<And>j. j < k \<Longrightarrow> \<exists>w'. setValue x (ss ! j) et z = Ok (w', None)"
  shows "\<exists>inst'. setElems x et ss i inst = Ok (inst', Some err)"
  using assms
proof (induction ss arbitrary: i inst k)
  case Nil
  then show ?case by simp
next
  case (Cons s ss)
  have i: "i < length inst" and zi: "inst ! i = z" using Cons.prems(2,3) by auto
  show ?case
  proof (cases k)
    case 0
    then show ?thesis using Cons.prems(4) i zi by simp
  next
    case (Suc k')
    from Cons.prems(5) [of 0] Suc obtain w' where w': "setValue x s et z = Ok (w', None)"
      by auto
    have "\<exists>inst'. setElems x et ss (i + 1) (inst[i := w']) = Ok (inst', Some err)"
    proof (rule Cons.IH [of k'])
      show "k' < length ss" using Cons.prems(1) Suc by simp
      show "i + 1 + length ss \<le> length (inst[i := w'])" using Cons.prems(2) by simp
      show "inst[i := w'] ! j = z" if "i + 1 \<le> j" "j < length (inst[i := w'])" for j
        using that Cons.prems(3) [of j] by simp
      show "setValue x (ss ! k') et z = Ok (w, Some err)" using Cons.prems(4) Suc by simp
      show "\<exists>w'. setValue x (ss ! j) et z = Ok (w', None)" if "j < k'" for j
        using Cons.prems(5) [of "Suc j"] that Suc by simp
    qed
    then show ?thesis using w' i zi by simp
  qed
qed

lemma setFieldSlice_error_keeps:
  "setFieldSlice x ss t fld = Ok (fld', Some err) \<Longrightarrow> fld' = fld"
  by (auto simp: setFieldSlice.simps split: if_splits res.splits prod.splits option.splits)

text \<open>
  Claim C7: when the conversion of an element of the split value fails, the elements
  before it having been set, \<open>setFieldSlice\<close> returns the error of that element and the
  field has the value it had: the new slice is not stored.
\<close>

theorem C7_slice_element_failure:
  assumes "Kind t = KSlice" and "k < length ss"
    and "setValue x (ss ! k) (Elem t) (zero (Elem t)) = Ok (w, Some err)"
    and "\<forall>j < k. \<exists>w'. setValue x (ss ! j) (Elem t) (zero (Elem t)) = Ok (w', None)"
  shows "setFieldSlice x ss t fld = Ok (fld, Some err)"
proof -
  have "\<exists>inst'. setElems x (Elem t) ss 0 (MakeSlice t (length ss)) = Ok (inst', Some err)"
    by (rule setElems_first_error [of k _ _ _ "zero (Elem t)" _ _ w])
       (use assms in \<open>auto simp: MakeSlice_def\<close>)
  then show ?thesis using assms(1) by (auto simp: setFieldSlice.simps)
qed

theorem C7_slice_element_failure_witness:
  "setFieldSlice exampleExtern [''1'', ''x'', ''3''] (TSlice TInt) (VSlice (Some [VInt 9]))
     = Ok (VSlice (Some [VInt 9]), Some (NumError ''Atoi'' ''x'' ''invalid syntax''))"
proof -
  have 1: "Kind (TSlice TInt) = KSlice" by simp
  have 2: "(1::nat) < length [''1'', ''x'', ''3'']" by simp
  have 3: "setValue exampleExtern ([''1'', ''x'', ''3''] ! 1) (Elem (TSlice TInt))
             (zero (Elem (TSlice TInt)))
           = Ok (VInt 0, Some (NumError ''Atoi'' ''x'' ''invalid syntax''))"
    by (simp add: run_simps)
  have 4: "\<forall>j<1. \<exists>w'. setValue exampleExtern ([''1'', ''x'', ''3''] ! j) (Elem (TSlice TInt))
             (zero (Elem (TSlice TInt))) = Ok (w', None)"
    by (simp add: run_simps)
  show ?thesis by (rule C7_slice_element_failure [OF 1 2 3 4])
qed

subsection \<open>The handle on a field\<close>

lemma FieldByIndex_Cons_cases:
  assumes "FieldByIndex t sv (i # idx) = Ok r"
  obtains (deref) fd vs p where "Field t i = Some fd" "sv = VStruct vs" "i < length vs"
      "throughPointer (Type fd) idx"
      "vs ! i = VPtr (Some p)" "FieldByIndex (Elem (Type fd)) p idx = Ok r"
  | (direct) fd vs where "Field t i = Some fd" "sv = VStruct vs" "i < length vs"
      "\<not> throughPointer (Type fd) idx"
      "FieldByIndex (Type fd) (vs ! i) idx = Ok r"
proof -
  from assms obtain fd where fd: "Field t i = Some fd"
    by (cases "Field t i") auto
  from assms fd obtain vs where vs: "sv = VStruct vs"
    by (cases sv) auto
  from assms fd vs have len: "i < length vs"
    by (auto split: if_splits)
  show thesis
  proof (cases "throughPointer (Type fd) idx")
    case True
    with assms fd vs len obtain p where p: "vs ! i = VPtr (Some p)"
      by (cases "vs ! i") (auto simp: Let_def split: option.splits)
    with True assms fd vs len have "FieldByIndex (Elem (Type fd)) p idx = Ok r"
      by (simp add: Let_def)
    with fd vs len True p show thesis by (rule deref)
  next
    case False
    with assms fd vs len have "FieldByIndex (Type fd) (vs ! i) idx = Ok r"
      by (simp add: Let_def)
    with fd vs len False show thesis by (rule direct)
  qed
qed

lemma atIndex_putAt:
  "FieldByIndex t sv idx = Ok (ft, fv) \<Longrightarrow>
   atIndex f t sv idx
     = (case f ft fv of Panic m \<Rightarrow> Panic m | Ok (w, r) \<Rightarrow> Ok (putAt t sv idx w, r))"
proof (induction idx arbitrary: t sv)
  case Nil
  then show ?case by (auto split: res.splits)
next
  case (Cons i idx)
  from Cons.prems show ?case
  proof (cases rule: FieldByIndex_Cons_cases)
    case (deref fd vs p)
    then show ?thesis
      using Cons.IH [OF deref(6)]
      by (simp add: Let_def split: res.splits)
  next
    case (direct fd vs)
    then show ?thesis
      using Cons.IH [OF direct(5)]
      by (simp add: Let_def split: res.splits)
  qed
qed

lemma FieldByIndex_putAt:
  "FieldByIndex t sv idx = Ok (ft, fv) \<Longrightarrow> FieldByIndex t (putAt t sv idx w) idx = Ok (ft, w)"
proof (induction idx arbitrary: t sv)
  case Nil
  then show ?case by simp
next
  case (Cons i idx)
  from Cons.prems show ?case
  proof (cases rule: FieldByIndex_Cons_cases)
    case (deref fd vs p)
    then show ?thesis
      using Cons.IH [OF deref(6)] by (simp add: Let_def)
  next
    case (direct fd vs)
    then show ?thesis
      using Cons.IH [OF direct(5)] by (simp add: Let_def)
  qed
qed

lemma newFlagField_handle:
  assumes "newFlagField name v = Ok (v1, Inr fld)"
  shows "\<exists>t sv fv. v1 = Some (t, sv) \<and> FieldByIndex t sv (fldIndex fld) = Ok (fldType fld, fv)"
  using assms
  by (auto simp: newFlagField_def findField_def split: option.splits res.splits if_splits prod.splits)

lemma SetValue_assign:
  assumes "newFlagField name v = Ok (v1, Inr fld)"
    and "\<And>fv. setValue x s (fldType fld) fv = Ok (w, None)"
  shows "SetValue x fld s v1 = Ok (assign v1 fld w, None)"
proof -
  from newFlagField_handle [OF assms(1)] obtain t sv fv where
    v1: "v1 = Some (t, sv)" and f: "FieldByIndex t sv (fldIndex fld) = Ok (fldType fld, fv)"
    by blast
  show ?thesis
    by (simp add: SetValue_def v1 assign_def atIndex_putAt [OF f] assms(2))
qed

lemma setValue_bool:
  "ParseBool s = Inr b \<Longrightarrow> setValue x s TBool fv = Ok (VBool b, None)"
  by (simp add: setValue.simps [of _ _ TBool] asTextUnmarshaler_def stringToType_def
      directlyAssignable_def)

lemma ParseBool_true: "ParseBool (FormatBool True) = Inr True"
  by (simp add: ParseBool_def FormatBool_def)

lemma ParseBool_empty: "isl (ParseBool [])"
  by (simp add: ParseBool_def)

subsection \<open>The loop of \<open>ApplyTo\<close>\<close>

text \<open>
  Claim C5: at a flag whose field is not boolean, when no argument follows or the next
  argument starts with the flag marker, the loop returns at once: the list is nil and the
  message of the error is the flag, two spaces, and "no value found".
\<close>

theorem C5_no_value_found:
  assumes "i < length args" and "HasPrefix (args ! i) ''-''"
    and "newFlagField (TrimLeft (args ! i) ''-'') v = Ok (v1, Inr fld)"
    and "Kind (FlagType fld) \<noteq> KBool"
    and "length args \<le> i + 1 \<or> HasPrefix (args ! (i + 1)) ''-''"
  shows "ApplyTo_loop x args i v unused
     = Ok (v1, None, Some (ErrorString (args ! i @ ''  no value found'')))"
proof -
  have "findFlagValue (drop (i + 1) args) (FlagType fld) = Inl (ErrorString ''no value found'')"
    using assms(4,5) by (auto simp: findFlagValue_def Let_def)
  then show ?thesis
    using assms(1,2,3) by (subst ApplyTo_loop.simps) (simp add: Let_def)
qed

theorem C5_no_value_found_witness:
  "ApplyTo_loop exampleExtern [''-count'', ''-v''] 0 (Some (exampleConfig, zero exampleConfig)) None
     = Ok (Some (exampleConfig, zero exampleConfig), None,
           Some (ErrorString ''-count  no value found''))"
proof -
  let ?args = "[''-count'', ''-v'']"
  have 1: "0 < length ?args" by simp
  have 2: "HasPrefix (?args ! 0) ''-''" by (simp add: HasPrefix_def)
  have 3: "newFlagField (TrimLeft (?args ! 0) ''-'') (Some (exampleConfig, zero exampleConfig))
     = Ok (Some (exampleConfig, zero exampleConfig), Inr \<lparr>fldType = TInt, fldIndex = [1]\<rparr>)"
    by (simp add: run_simps)
  have 4: "Kind (FlagType \<lparr>fldType = TInt, fldIndex = [1]\<rparr>) \<noteq> KBool"
    by (simp add: FlagType_def)
  have 5: "length ?args \<le> 0 + 1 \<or> HasPrefix (?args ! (0 + 1)) ''-''"
    by (simp add: HasPrefix_def)
  show ?thesis
    using C5_no_value_found [OF 1 2 3 4 5, of exampleExtern None] by simp
qed

text \<open>
  The value of a boolean flag, for a field of the predeclared type \<open>bool\<close>: when the
  next argument exists, does not start with the flag marker and parses as a boolean, the
  field is set to that boolean and the loop goes on after that argument; in every other
  case (no next argument, a next argument that starts with the flag marker or that does
  not parse as a boolean) the field is set to true and the loop goes on at the next
  argument. Reading the field after the assignment gives the value assigned.
\<close>

lemma bool_flag_value:
  assumes "i < length args" and "HasPrefix (args ! i) ''-''"
    and "newFlagField (TrimLeft (args ! i) ''-'') v = Ok (v1, Inr fld)"
    and "FlagType fld = TBool"
  shows "(\<forall>b. i + 1 < length args \<and> \<not> HasPrefix (args ! (i + 1)) ''-''
            \<and> ParseBool (args ! (i + 1)) = Inr b \<longrightarrow>
          ApplyTo_loop x args i v unused
            = ApplyTo_loop x args (i + 2) (assign v1 fld (VBool b)) unused)
       \<and> (length args \<le> i + 1 \<or> HasPrefix (args ! (i + 1)) ''-''
            \<or> isl (ParseBool (args ! (i + 1))) \<longrightarrow>
          ApplyTo_loop x args i v unused
            = ApplyTo_loop x args (i + 1) (assign v1 fld (VBool True)) unused)
       \<and> (\<forall>w. fieldOf (assign v1 fld w) fld = Ok (TBool, w))"
proof (intro conjI allI impI)
  fix b
  assume h: "i + 1 < length args \<and> \<not> HasPrefix (args ! (i + 1)) ''-''
            \<and> ParseBool (args ! (i + 1)) = Inr b"
  then have ne: "args ! (i + 1) \<noteq> []" using ParseBool_empty by auto
  have fv: "findFlagValue (drop (i + 1) args) (FlagType fld)
      = Inr (args ! (i + 1), drop 1 (drop (i + 1) args))"
    using h ne assms(4) by (auto simp: findFlagValue_def Let_def)
  have sv: "SetValue x fld (args ! (i + 1)) v1 = Ok (assign v1 fld (VBool b), None)"
    using assms(4) h by (intro SetValue_assign [OF assms(3)]) (simp add: FlagType_def setValue_bool)
  show "ApplyTo_loop x args i v unused
            = ApplyTo_loop x args (i + 2) (assign v1 fld (VBool b)) unused"
    using assms(1,2,3) fv sv h
    by (subst ApplyTo_loop.simps) (simp add: Let_def)
next
  assume h: "length args \<le> i + 1 \<or> HasPrefix (args ! (i + 1)) ''-''
            \<or> isl (ParseBool (args ! (i + 1)))"
  have fv: "findFlagValue (drop (i + 1) args) (FlagType fld)
      = Inr (FormatBool True, drop (i + 1) args)"
    using h assms(4) by (auto simp: findFlagValue_def Let_def)
  have sv: "SetValue x fld (FormatBool True) v1 = Ok (assign v1 fld (VBool True), None)"
    using assms(4)
    by (intro SetValue_assign [OF assms(3)]) (simp add: FlagType_def setValue_bool ParseBool_true)
  show "ApplyTo_loop x args i v unused
            = ApplyTo_loop x args (i + 1) (assign v1 fld (VBool True)) unused"
    using assms(1,2,3) fv sv
    by (subst ApplyTo_loop.simps) (simp add: Let_def)
next
  fix w
  from newFlagField_handle [OF assms(3)] obtain t sv fv where
    v1: "v1 = Some (t, sv)" and f: "FieldByIndex t sv (fldIndex fld) = Ok (fldType fld, fv)"
    by blast
  show "fieldOf (assign v1 fld w) fld = Ok (TBool, w)"
    using FieldByIndex_putAt [OF f, of w] assms(4)
    by (simp add: fieldOf_def assign_def v1 FlagType_def)
qed



lemma bool_flag_value_example:
  "ApplyTo_loop exampleExtern [''-v'', ''false'', ''-v'', ''pos''] 0
       (Some (exampleConfig, zero exampleConfig)) None
     = ApplyTo_loop exampleExtern [''-v'', ''false'', ''-v'', ''pos''] 2
         (Some (exampleConfig, VStruct [VBool False, VInt 0, VSlice None, VPtr None])) None
   \<and> ApplyTo_loop exampleExtern [''-v'', ''false'', ''-v'', ''pos''] 2
       (Some (exampleConfig, zero exampleConfig)) None
     = ApplyTo_loop exampleExtern [''-v'', ''false'', ''-v'', ''pos''] 3
         (Some (exampleConfig, VStruct [VBool True, VInt 0, VSlice None, VPtr None])) None
   \<and> fieldOf (assign (Some (exampleConfig, zero exampleConfig))
                \<lparr>fldType = TBool, fldIndex = [0]\<rparr> (VBool True))
         \<lparr>fldType = TBool, fldIndex = [0]\<rparr>
     = Ok (TBool, VBool True)"
proof -
  let ?args = "[''-v'', ''false'', ''-v'', ''pos'']"
  let ?v = "Some (exampleConfig, zero exampleConfig)"
  let ?fld = "\<lparr>fldType = TBool, fldIndex = [0]\<rparr>"
  have n: "newFlagField ''v'' ?v = Ok (?v, Inr ?fld)"
    by (simp add: run_simps)
  have t: "FlagType ?fld = TBool" by (simp add: FlagType_def)
  have a0: "HasPrefix (?args ! 0) ''-''" and a2: "HasPrefix (?args ! 2) ''-''"
    by (simp_all add: HasPrefix_def)
  have n0: "newFlagField (TrimLeft (?args ! 0) ''-'') ?v = Ok (?v, Inr ?fld)"
    and n2: "newFlagField (TrimLeft (?args ! 2) ''-'') ?v = Ok (?v, Inr ?fld)"
    using n by (simp_all add: TrimLeft_def)
  have l0: "0 < length ?args" and l2: "2 < length ?args" by simp_all
  have b: "0 + 1 < length ?args \<and> \<not> HasPrefix (?args ! (0 + 1)) ''-''
      \<and> ParseBool (?args ! (0 + 1)) = Inr False"
    by (simp add: HasPrefix_def ParseBool_def)
  have c: "length ?args \<le> 2 + 1 \<or> HasPrefix (?args ! (2 + 1)) ''-''
      \<or> isl (ParseBool (?args ! (2 + 1)))"
    by (simp add: ParseBool_def)
  have p: "assign ?v ?fld (VBool w)
      = Some (exampleConfig, VStruct [VBool w, VInt 0, VSlice None, VPtr None])" for w
    by (simp add: assign_def exampleConfig_def Field_def NumField_def throughPointer_def)
  note T0 = bool_flag_value [OF l0 a0 n0 t, of exampleExtern None]
  note T2 = bool_flag_value [OF l2 a2 n2 t, of exampleExtern None]
  have r0: "ApplyTo_loop exampleExtern ?args 0 ?v None
      = ApplyTo_loop exampleExtern ?args (0 + 2) (assign ?v ?fld (VBool False)) None"
    using T0 b by blast
  have r2: "ApplyTo_loop exampleExtern ?args 2 ?v None
      = ApplyTo_loop exampleExtern ?args (2 + 1) (assign ?v ?fld (VBool True)) None"
    using T2 c by blast
  have r3: "fieldOf (assign ?v ?fld (VBool True)) ?fld = Ok (TBool, VBool True)"
    using T0 by blast
  have "(0::nat) + 2 = 2" and "(2::nat) + 1 = 3" by simp_all
  then show ?thesis using r0 r2 r3 p by metis
qed


subsection \<open>The field of a flag\<close>

lemma scanFields_direct:
  assumes "k < NumField t" and "fieldMatches name (fieldsOf t ! k)"
    and "i \<le> k"
    and "\<And>j. i \<le> j \<Longrightarrow> j < k \<Longrightarrow>
           \<not> fieldMatches name (fieldsOf t ! j) \<and> \<not> misconfigured (fieldsOf t ! j)"
  shows "scanFields name t parents i sub = Ok (Inl (parents @ [k]))"
  using assms(3,4)
proof (induction "k - i" arbitrary: i sub)
  case 0
  then have "i = k" by simp
  then show ?case
    using assms(1,2)
    by (subst scanFields.simps) (auto simp: fieldMatches_def flagTags_def Let_def)
next
  case (Suc n)
  then have ik: "i < k" and i: "i < NumField t" using assms(1) by auto
  have step: "scanFields name t parents (i + 1) sub' = Ok (Inl (parents @ [k]))" for sub'
    using Suc.hyps(2) Suc.prems ik by (intro Suc.hyps(1)) auto
  have no: "\<not> fieldMatches name (fieldsOf t ! i)" "\<not> misconfigured (fieldsOf t ! i)"
    using Suc.prems(2) [of i] ik by auto
  show ?case
    using i no step
    by (subst scanFields.simps)
       (auto simp: fieldMatches_def misconfigured_def promoted_def flagTags_def Let_def)
qed

lemma findFieldIndex_direct:
  assumes "Kind t = KStruct" and "k < NumField t" and "fieldMatches name (fieldsOf t ! k)"
    and "\<And>j. j < k \<Longrightarrow>
           \<not> fieldMatches name (fieldsOf t ! j) \<and> \<not> misconfigured (fieldsOf t ! j)"
  shows "findFieldIndex name t parents = Ok (parents @ [k])"
proof -
  have "scanFields name t parents 0 [] = Ok (Inl (parents @ [k]))"
    using assms(2,3,4) by (intro scanFields_direct) auto
  then show ?thesis
    using assms(1) by (subst findFieldIndex.simps) simp
qed

lemma scanFields_none:
  assumes "\<And>j. i \<le> j \<Longrightarrow> j < NumField t \<Longrightarrow>
           \<not> fieldMatches name (fieldsOf t ! j) \<and> \<not> misconfigured (fieldsOf t ! j)"
  shows "scanFields name t parents i sub
     = Ok (Inr (sub @ filter (\<lambda>j. promoted (fieldsOf t ! j)) [i ..< NumField t]))"
  using assms
proof (induction "NumField t - i" arbitrary: i sub)
  case 0
  then show ?case by (subst scanFields.simps) simp
next
  case (Suc n)
  then have i: "i < NumField t" by simp
  have step: "scanFields name t parents (i + 1) sub'
     = Ok (Inr (sub' @ filter (\<lambda>j. promoted (fieldsOf t ! j)) [i + 1 ..< NumField t]))" for sub'
    using Suc.hyps(2) Suc.prems by (intro Suc.hyps(1)) auto
  have no: "\<not> fieldMatches name (fieldsOf t ! i)" "\<not> misconfigured (fieldsOf t ! i)"
    using Suc.prems [of i] i by auto
  have upt: "[i ..< NumField t] = i # [i + 1 ..< NumField t]"
    using i by (simp add: upt_conv_Cons)
  show ?case
    using i no step
    by (subst scanFields.simps)
       (auto simp: upt fieldMatches_def misconfigured_def promoted_def flagTags_def Let_def)
qed

lemma searchSubArgs_first:
  assumes "\<And>j. j \<in> set js \<Longrightarrow> j < NumField t
              \<and> findFieldIndex name (Type (fieldsOf t ! j)) (parents @ [j]) = Ok []"
    and "k < NumField t"
    and "findFieldIndex name (Type (fieldsOf t ! k)) (parents @ [k]) = Ok index" "index \<noteq> []"
  shows "searchSubArgs name t parents (js @ k # rest) = Ok index"
  using assms(1)
proof (induction js)
  case Nil
  then show ?case using assms(2,3,4) by (simp add: Field_def)
next
  case (Cons j js)
  then show ?case by (simp add: Field_def)
qed

lemma searchSubArgs_none:
  assumes "\<And>j. j \<in> set js \<Longrightarrow> j < NumField t
              \<and> findFieldIndex name (Type (fieldsOf t ! j)) (parents @ [j]) = Ok []"
  shows "searchSubArgs name t parents js = Ok []"
  using assms by (induction js) (simp_all add: Field_def)

lemma isNameInTag_fold:
  "EqualFold name name' \<Longrightarrow> isNameInTag name' tags = isNameInTag name tags"
  by (induction tags) (auto simp: EqualFold_def)

lemma scanFields_fold:
  "EqualFold name name' \<Longrightarrow>
   scanFields name' t parents i sub = scanFields name t parents i sub"
proof (induction name t parents i sub rule: scanFields.induct)
  case (1 name t parents i sub)
  have e: "EqualFold name' s = EqualFold name s" for s
    using 1(4) by (auto simp: EqualFold_def)
  show ?case
    using 1
    by (subst scanFields.simps, subst (2) scanFields.simps)
       (simp add: Let_def e isNameInTag_fold [OF 1(4)])
qed

lemma findFieldIndex_fold_aux:
  shows "EqualFold name name' \<Longrightarrow>
      findFieldIndex name' t parents = findFieldIndex name t parents"
    and "EqualFold name name' \<Longrightarrow>
      searchSubArgs name' t parents js = searchSubArgs name t parents js"
proof (induction name t parents and name t parents js rule: findFieldIndex_searchSubArgs.induct)
  case (1 name t parents)
  note e = 1(3)
  show ?case
    using 1
    by (subst findFieldIndex.simps, subst (2) findFieldIndex.simps)
       (auto simp: scanFields_fold [OF e] split: res.splits sum.splits)
next
  case (2 name t parents)
  then show ?case by simp
next
  case (3 name t parents i subArgIndexes)
  then show ?case by (auto split: option.splits res.splits)
qed

text \<open>
  Claim C8, for a structure type none of whose fields up to the match is misconfigured.
  Two names that differ in the case of their letters resolve alike. A name that a field
  of the structure matches, by its name or by an alias, resolves to the first such field
  in the order of declaration, whatever the promoted fields before it hold. A name that
  no field of the structure matches resolves to what the first promoted field, in the
  order of declaration, that holds a match resolves it to; and to nothing when there is
  none. Within one field, the name and the aliases lead to the same path.
\<close>

theorem C8_field_resolution:
  assumes "Kind t = KStruct"
  shows "(\<forall>name'. EqualFold name name' \<longrightarrow>
            findFieldIndex name' t parents = findFieldIndex name t parents)
       \<and> (\<forall>k. k < NumField t \<and> fieldMatches name (fieldsOf t ! k)
              \<and> (\<forall>j<k. \<not> fieldMatches name (fieldsOf t ! j) \<and> \<not> misconfigured (fieldsOf t ! j))
            \<longrightarrow> findFieldIndex name t parents = Ok (parents @ [k]))
       \<and> (\<forall>k index.
              (\<forall>j<NumField t. \<not> fieldMatches name (fieldsOf t ! j)
                                 \<and> \<not> misconfigured (fieldsOf t ! j))
              \<and> k < NumField t \<and> promoted (fieldsOf t ! k)
              \<and> findFieldIndex name (Type (fieldsOf t ! k)) (parents @ [k]) = Ok index
              \<and> index \<noteq> []
              \<and> (\<forall>j<k. promoted (fieldsOf t ! j) \<longrightarrow>
                     findFieldIndex name (Type (fieldsOf t ! j)) (parents @ [j]) = Ok [])
            \<longrightarrow> findFieldIndex name t parents = Ok index)
       \<and> ((\<forall>j<NumField t. \<not> fieldMatches name (fieldsOf t ! j)
                             \<and> \<not> misconfigured (fieldsOf t ! j)
                             \<and> (promoted (fieldsOf t ! j) \<longrightarrow>
                                  findFieldIndex name (Type (fieldsOf t ! j)) (parents @ [j]) = Ok []))
            \<longrightarrow> findFieldIndex name t parents = Ok [])"
proof (intro conjI allI impI)
  fix name'
  assume "EqualFold name name'"
  then show "findFieldIndex name' t parents = findFieldIndex name t parents"
    by (rule findFieldIndex_fold_aux(1))
next
  fix k
  assume h: "k < NumField t \<and> fieldMatches name (fieldsOf t ! k)
      \<and> (\<forall>j<k. \<not> fieldMatches name (fieldsOf t ! j) \<and> \<not> misconfigured (fieldsOf t ! j))"
  then show "findFieldIndex name t parents = Ok (parents @ [k])"
    using assms by (intro findFieldIndex_direct) auto
next
  fix k index
  let ?P = "\<lambda>j. promoted (fieldsOf t ! j)"
  assume h: "(\<forall>j<NumField t. \<not> fieldMatches name (fieldsOf t ! j)
                                 \<and> \<not> misconfigured (fieldsOf t ! j))
              \<and> k < NumField t \<and> promoted (fieldsOf t ! k)
              \<and> findFieldIndex name (Type (fieldsOf t ! k)) (parents @ [k]) = Ok index
              \<and> index \<noteq> []
              \<and> (\<forall>j<k. promoted (fieldsOf t ! j) \<longrightarrow>
                     findFieldIndex name (Type (fieldsOf t ! j)) (parents @ [j]) = Ok [])"
  then have scan: "scanFields name t parents 0 []
      = Ok (Inr (filter ?P [0 ..< NumField t]))"
    using scanFields_none [of 0 t name parents "[]"] by simp
  have "[0 ..< NumField t] = [0 ..< k] @ [k ..< NumField t]"
    using h upt_add_eq_append [of 0 k "NumField t - k"] by simp
  moreover have "[k ..< NumField t] = k # [Suc k ..< NumField t]"
    using h by (simp add: upt_conv_Cons)
  ultimately have "[0 ..< NumField t] = [0 ..< k] @ k # [Suc k ..< NumField t]"
    by simp
  then have cut: "filter ?P [0 ..< NumField t]
      = filter ?P [0 ..< k] @ k # filter ?P [Suc k ..< NumField t]"
    using h by simp
  have "searchSubArgs name t parents
          (filter ?P [0 ..< k] @ k # filter ?P [Suc k ..< NumField t]) = Ok index"
    using h by (intro searchSubArgs_first) auto
  then show "findFieldIndex name t parents = Ok index"
    using assms scan cut by (subst findFieldIndex.simps) simp
next
  let ?P = "\<lambda>j. promoted (fieldsOf t ! j)"
  assume h: "\<forall>j<NumField t. \<not> fieldMatches name (fieldsOf t ! j)
                             \<and> \<not> misconfigured (fieldsOf t ! j)
                             \<and> (promoted (fieldsOf t ! j) \<longrightarrow>
                                  findFieldIndex name (Type (fieldsOf t ! j)) (parents @ [j]) = Ok [])"
  then have scan: "scanFields name t parents 0 []
      = Ok (Inr (filter ?P [0 ..< NumField t]))"
    using scanFields_none [of 0 t name parents "[]"] by simp
  have "searchSubArgs name t parents (filter ?P [0 ..< NumField t]) = Ok []"
    using h by (intro searchSubArgs_none) auto
  then show "findFieldIndex name t parents = Ok []"
    using assms scan by (subst findFieldIndex.simps) simp
qed

theorem C8_field_resolution_witness:
  "findFieldIndex ''VERBOSE'' exampleConfig [] = findFieldIndex ''verbose'' exampleConfig []
   \<and> findFieldIndex ''verbose'' exampleConfig [] = Ok [0]
   \<and> findFieldIndex ''T'' exampleConfig [] = Ok [2]
   \<and> findFieldIndex ''name'' exampleConfig [] = Ok [3, 0]
   \<and> findFieldIndex ''name'' exampleShadow [] = Ok [1]
   \<and> findFieldIndex ''nothing'' exampleConfig [] = Ok []"
proof -
  have kc: "Kind exampleConfig = KStruct" by (simp add: exampleConfig_def)
  have ks: "Kind exampleShadow = KStruct" by (simp add: exampleShadow_def)
  have a: "EqualFold ''verbose'' ''VERBOSE''"
    by (simp add: EqualFold_def toLower_def)
  have 1: "findFieldIndex ''VERBOSE'' exampleConfig [] = findFieldIndex ''verbose'' exampleConfig []"
    using C8_field_resolution [OF kc, of "''verbose''" "[]"] a by blast
  have b: "0 < NumField exampleConfig \<and> fieldMatches ''verbose'' (fieldsOf exampleConfig ! 0)
      \<and> (\<forall>j<0. \<not> fieldMatches ''verbose'' (fieldsOf exampleConfig ! j)
                \<and> \<not> misconfigured (fieldsOf exampleConfig ! j))"
    by (simp add: run_simps match_simps)
  have 2: "findFieldIndex ''verbose'' exampleConfig [] = Ok ([] @ [0])"
    using C8_field_resolution [OF kc, of "''verbose''" "[]"] b by blast
  have c: "2 < NumField exampleConfig \<and> fieldMatches ''T'' (fieldsOf exampleConfig ! 2)
      \<and> (\<forall>j<2. \<not> fieldMatches ''T'' (fieldsOf exampleConfig ! j)
                \<and> \<not> misconfigured (fieldsOf exampleConfig ! j))"
    by (simp add: run_simps match_simps)
  have 3: "findFieldIndex ''T'' exampleConfig [] = Ok ([] @ [2])"
    using C8_field_resolution [OF kc, of "''T''" "[]"] c by blast
  have d: "(\<forall>j<NumField exampleConfig. \<not> fieldMatches ''name'' (fieldsOf exampleConfig ! j)
                \<and> \<not> misconfigured (fieldsOf exampleConfig ! j))
      \<and> 3 < NumField exampleConfig \<and> promoted (fieldsOf exampleConfig ! 3)
      \<and> findFieldIndex ''name'' (Type (fieldsOf exampleConfig ! 3)) ([] @ [3]) = Ok [3, 0]
      \<and> [3, 0] \<noteq> ([] :: nat list)
      \<and> (\<forall>j<3. promoted (fieldsOf exampleConfig ! j) \<longrightarrow>
             findFieldIndex ''name'' (Type (fieldsOf exampleConfig ! j)) ([] @ [j]) = Ok [])"
    by (simp add: run_simps match_simps)
  have 4: "findFieldIndex ''name'' exampleConfig [] = Ok [3, 0]"
    using C8_field_resolution [OF kc, of "''name''" "[]"] d by blast
  have e: "1 < NumField exampleShadow \<and> fieldMatches ''name'' (fieldsOf exampleShadow ! 1)
      \<and> (\<forall>j<1. \<not> fieldMatches ''name'' (fieldsOf exampleShadow ! j)
                \<and> \<not> misconfigured (fieldsOf exampleShadow ! j))"
    by (simp add: run_simps match_simps exampleShadow_def)
  have 5: "findFieldIndex ''name'' exampleShadow [] = Ok ([] @ [1])"
    using C8_field_resolution [OF ks, of "''name''" "[]"] e by blast
  have f: "\<forall>j<NumField exampleConfig. \<not> fieldMatches ''nothing'' (fieldsOf exampleConfig ! j)
         \<and> \<not> misconfigured (fieldsOf exampleConfig ! j)
         \<and> (promoted (fieldsOf exampleConfig ! j) \<longrightarrow>
               findFieldIndex ''nothing'' (Type (fieldsOf exampleConfig ! j)) ([] @ [j]) = Ok [])"
    by (simp add: run_simps match_simps)
  have 6: "findFieldIndex ''nothing'' exampleConfig [] = Ok []"
    using C8_field_resolution [OF kc, of "''nothing''" "[]"] f by blast
  show ?thesis using 1 2 3 4 5 6 by simp
qed

lemma only_markers:
  assumes "arg \<noteq> []" "set arg \<subseteq> {CHR ''-''}"
  shows "HasPrefix arg ''-''" and "TrimLeft arg ''-'' = []"
proof -
  from assms obtain cs where "arg = CHR ''-'' # cs" by (cases arg) auto
  then show "HasPrefix arg ''-''" by (simp add: HasPrefix_def)
  from assms(2) show "TrimLeft arg ''-'' = []"
    by (auto simp: TrimLeft_def dropWhile_eq_Nil_conv)
qed

lemma isNameInTag_empty: "[] \<in> set tags \<Longrightarrow> isNameInTag [] tags"
  by (induction tags) (auto simp: EqualFold_def)

lemma flagTags_absent: "map_of (Tag f) FlagTagName = None \<Longrightarrow> flagTags f = [[]]"
  by (simp add: flagTags_def TagGet_def Split_def splitAcc.simps)

lemma handle_direct:
  assumes "Field t k = Some f" "k < length vs"
    and "Kind (Type f) = KPtr \<longrightarrow> (\<exists>p. vs ! k = VPtr p)"
    and "findFieldIndex name t [] = Ok [k]"
  shows "\<exists>v1. newFlagField name (Some (t, VStruct vs))
             = Ok (v1, Inr \<lparr>fldType = Type f, fldIndex = [k]\<rparr>)"
proof (cases "Kind (Type f) = KPtr")
  case True
  with assms(3) obtain p where p: "vs ! k = VPtr p" by auto
  show ?thesis
    using assms(1,2,4) True p
    by (cases p)
       (simp_all add: newFlagField_def findField_def Let_def IsNil_def New_def throughPointer_def)
next
  case False
  then show ?thesis
    using assms(1,2,4)
    by (simp add: newFlagField_def findField_def Let_def throughPointer_def)
qed

text \<open>
  Claim C10: let the first exported field of a structure, in the order of declaration,
  carry no \<open>flag\<close> tag, or a tag with an empty element. An argument made of flag markers
  only is a flag with the empty name; the empty tag splits into one empty alias, which
  the empty name matches; the name resolves to that field, and the loop treats the
  argument as a flag of the field: it looks for the value and returns the error when
  there is none, and the argument is not added to the unused list.
\<close>

theorem C10_marker_only_token:
  assumes "Kind t = KStruct" and "k < NumField t" and "f = fieldsOf t ! k"
    and "IsExported f" and "\<forall>j<k. \<not> IsExported (fieldsOf t ! j)"
    and "map_of (Tag f) FlagTagName = None \<or> [] \<in> set (flagTags f)"
    and "arg \<noteq> []" and "set arg \<subseteq> {CHR ''-''}"
    and "i < length args" and "args ! i = arg"
    and "k < length vs" and "Kind (Type f) = KPtr \<longrightarrow> (\<exists>p. vs ! k = VPtr p)"
  shows "HasPrefix arg ''-'' \<and> TrimLeft arg ''-'' = []
       \<and> isNameInTag [] (Split [] '','')
       \<and> findFieldIndex [] t [] = Ok [k]
       \<and> (\<exists>v1. newFlagField [] (Some (t, VStruct vs))
                  = Ok (v1, Inr \<lparr>fldType = Type f, fldIndex = [k]\<rparr>)
              \<and> ApplyTo_loop x args i (Some (t, VStruct vs)) unused
                  = (case findFlagValue (drop (i + 1) args) (Type f) of
                       Inl err \<Rightarrow> Ok (v1, None, Some (ErrorString (arg @ ''  '' @ Error err)))
                     | Inr (argValue, remain) \<Rightarrow>
                         (case SetValue x \<lparr>fldType = Type f, fldIndex = [k]\<rparr> argValue v1 of
                            Panic m \<Rightarrow> Panic m
                          | Ok (v2, Some err) \<Rightarrow>
                              Ok (v2, None,
                                  Some (ErrorString
                                    ([CHR 0x27] @ arg @ [CHR 0x27] @ ''  '' @ Error err)))
                          | Ok (v2, None) \<Rightarrow>
                              ApplyTo_loop x args
                                (i + (length (drop (i + 1) args) - length remain) + 1) v2 unused)))"
proof -
  note m = only_markers [OF assms(7,8)]
  have tag: "isNameInTag [] (flagTags f)"
    using assms(6) flagTags_absent [of f] isNameInTag_empty [of "flagTags f"] by auto
  have e: "isNameInTag [] (Split [] '','')"
    by (simp add: Split_def splitAcc.simps EqualFold_def)
  have fm: "fieldMatches [] (fieldsOf t ! k)"
    using assms(3,4) tag by (simp add: fieldMatches_def)
  have before: "\<not> fieldMatches [] (fieldsOf t ! j) \<and> \<not> misconfigured (fieldsOf t ! j)"
    if "j < k" for j
    using that assms(5) by (simp add: fieldMatches_def misconfigured_def promoted_def)
  have idx: "findFieldIndex [] t [] = Ok [k]"
    using findFieldIndex_direct [OF assms(1,2) fm, of "[]"] before by simp
  have fld: "Field t k = Some f"
    using assms(2,3) by (simp add: Field_def)
  from handle_direct [OF fld assms(11,12) idx] obtain v1 where
    v1: "newFlagField [] (Some (t, VStruct vs))
           = Ok (v1, Inr \<lparr>fldType = Type f, fldIndex = [k]\<rparr>)"
    by blast
  have loop: "ApplyTo_loop x args i (Some (t, VStruct vs)) unused
      = (case findFlagValue (drop (i + 1) args) (Type f) of
           Inl err \<Rightarrow> Ok (v1, None, Some (ErrorString (arg @ ''  '' @ Error err)))
         | Inr (argValue, remain) \<Rightarrow>
             (case SetValue x \<lparr>fldType = Type f, fldIndex = [k]\<rparr> argValue v1 of
                Panic m \<Rightarrow> Panic m
              | Ok (v2, Some err) \<Rightarrow>
                  Ok (v2, None,
                      Some (ErrorString ([CHR 0x27] @ arg @ [CHR 0x27] @ ''  '' @ Error err)))
              | Ok (v2, None) \<Rightarrow>
                  ApplyTo_loop x args
                    (i + (length (drop (i + 1) args) - length remain) + 1) v2 unused))"
    using assms(9,10) m v1
    by (subst ApplyTo_loop.simps)
       (simp add: Let_def FlagType_def split: sum.splits prod.splits res.splits option.splits)
  show ?thesis using m e idx v1 loop by blast
qed

theorem C10_marker_only_token_witness:
  "findFieldIndex [] exampleSub [] = Ok [0]
   \<and> ApplyTo_loop exampleExtern [''--'', ''x''] 0 (Some (exampleSub, zero exampleSub)) None
       = Ok (Some (exampleSub, VStruct [VString ''x'', VFloat32 0, VInt 0]), None, None)
   \<and> ApplyTo_loop exampleExtern [''-''] 0 (Some (exampleSub, zero exampleSub)) None
       = Ok (Some (exampleSub, zero exampleSub), None, Some (ErrorString ''-  no value found''))"
proof -
  let ?f = "StructField ''Name'' [] [] TString"
  let ?vs = "[VString [], VFloat32 0, VInt 0]"
  have z: "zero exampleSub = VStruct ?vs" by (simp add: exampleSub_def)
  have 1: "Kind exampleSub = KStruct" by (simp add: exampleSub_def)
  have 2: "0 < NumField exampleSub" by (simp add: exampleSub_def NumField_def)
  have 3: "?f = fieldsOf exampleSub ! 0" by (simp add: exampleSub_def)
  have 4: "IsExported ?f" by (simp add: IsExported_def)
  have 5: "\<forall>j<0. \<not> IsExported (fieldsOf exampleSub ! j)" by simp
  have 6: "map_of (Tag ?f) FlagTagName = None \<or> [] \<in> set (flagTags ?f)" by simp
  have 7: "''--'' \<noteq> []" "''-'' \<noteq> []" by simp_all
  have 8: "set ''--'' \<subseteq> {CHR ''-''}" "set ''-'' \<subseteq> {CHR ''-''}" by simp_all
  have 9: "0 < length [''--'', ''x'']" "0 < length [''-'']" by simp_all
  have 10: "[''--'', ''x''] ! 0 = ''--''" "[''-''] ! 0 = ''-''" by simp_all
  have 11: "0 < length ?vs" by simp
  have 12: "Kind (Type ?f) = KPtr \<longrightarrow> (\<exists>p. ?vs ! 0 = VPtr p)" by simp
  have n: "newFlagField [] (Some (exampleSub, VStruct ?vs))
      = Ok (Some (exampleSub, VStruct ?vs), Inr \<lparr>fldType = TString, fldIndex = [0]\<rparr>)"
    by (simp add: run_simps)
  have s: "SetValue exampleExtern \<lparr>fldType = TString, fldIndex = [0]\<rparr> ''x''
        (Some (exampleSub, VStruct ?vs))
      = Ok (Some (exampleSub, VStruct [VString ''x'', VFloat32 0, VInt 0]), None)"
    by (simp add: run_simps)
  note A = C10_marker_only_token [OF 1 2 3 4 5 6 7(1) 8(1) 9(1) 10(1) 11 12,
      of exampleExtern None]
  note B = C10_marker_only_token [OF 1 2 3 4 5 6 7(2) 8(2) 9(2) 10(2) 11 12,
      of exampleExtern None]
  have r1: "findFieldIndex [] exampleSub [] = Ok [0]" using A by blast
  from A obtain v1 where
    nA: "newFlagField [] (Some (exampleSub, VStruct ?vs))
           = Ok (v1, Inr \<lparr>fldType = Type ?f, fldIndex = [0]\<rparr>)"
    and eA: "ApplyTo_loop exampleExtern [''--'', ''x''] 0 (Some (exampleSub, VStruct ?vs)) None
      = (case findFlagValue (drop (0 + 1) [''--'', ''x'']) (Type ?f) of
           Inl err \<Rightarrow> Ok (v1, None, Some (ErrorString (''--'' @ ''  '' @ Error err)))
         | Inr (argValue, remain) \<Rightarrow>
             (case SetValue exampleExtern \<lparr>fldType = Type ?f, fldIndex = [0]\<rparr> argValue v1 of
                Panic m \<Rightarrow> Panic m
              | Ok (v2, Some err) \<Rightarrow>
                  Ok (v2, None,
                      Some (ErrorString ([CHR 0x27] @ ''--'' @ [CHR 0x27] @ ''  '' @ Error err)))
              | Ok (v2, None) \<Rightarrow>
                  ApplyTo_loop exampleExtern [''--'', ''x'']
                    (0 + (length (drop (0 + 1) [''--'', ''x'']) - length remain) + 1) v2 None))"
    by blast
  from nA n have vA: "v1 = Some (exampleSub, VStruct ?vs)" by simp
  have r2: "ApplyTo_loop exampleExtern [''--'', ''x''] 0 (Some (exampleSub, VStruct ?vs)) None
       = Ok (Some (exampleSub, VStruct [VString ''x'', VFloat32 0, VInt 0]), None, None)"
    unfolding eA vA using s
    by (simp add: findFlagValue_def HasPrefix_def ApplyTo_loop.simps)
  from B obtain w1 where
    nB: "newFlagField [] (Some (exampleSub, VStruct ?vs))
           = Ok (w1, Inr \<lparr>fldType = Type ?f, fldIndex = [0]\<rparr>)"
    and eB: "ApplyTo_loop exampleExtern [''-''] 0 (Some (exampleSub, VStruct ?vs)) None
      = (case findFlagValue (drop (0 + 1) [''-'']) (Type ?f) of
           Inl err \<Rightarrow> Ok (w1, None, Some (ErrorString (''-'' @ ''  '' @ Error err)))
         | Inr (argValue, remain) \<Rightarrow>
             (case SetValue exampleExtern \<lparr>fldType = Type ?f, fldIndex = [0]\<rparr> argValue w1 of
                Panic m \<Rightarrow> Panic m
              | Ok (v2, Some err) \<Rightarrow>
                  Ok (v2, None,
                      Some (ErrorString ([CHR 0x27] @ ''-'' @ [CHR 0x27] @ ''  '' @ Error err)))
              | Ok (v2, None) \<Rightarrow>
                  ApplyTo_loop exampleExtern [''-'']
                    (0 + (length (drop (0 + 1) [''-'']) - length remain) + 1) v2 None))"
    by blast
  from nB n have vB: "w1 = Some (exampleSub, VStruct ?vs)" by simp
  have r3: "ApplyTo_loop exampleExtern [''-''] 0 (Some (exampleSub, VStruct ?vs)) None
       = Ok (Some (exampleSub, VStruct ?vs), None, Some (ErrorString ''-  no value found''))"
    unfolding eB vB by (simp add: findFlagValue_def)
  show ?thesis using r1 r2 r3 by (simp add: z)
qed

subsection \<open>Boolean fields of a defined type\<close>

lemma bool_kind_named:
  "Kind t = KBool \<Longrightarrow> t \<noteq> TBool \<Longrightarrow> hasName t \<and> Kind t \<noteq> KPtr \<and> Kind t \<noteq> KSlice"
  by (cases t) auto

lemma setValue_defined_bool:
  assumes "Kind t = KBool" and "t \<noteq> TBool" and "asTextUnmarshaler t = None"
    and "ParseBool s = Inr b"
  shows "setValue x s t fv
     = Panic (''reflect.Set: value of type bool is not assignable to type '' @ TypeString t)"
  using assms bool_kind_named [OF assms(1,2)]
  by (subst setValue.simps) (simp add: stringToType_def directlyAssignable_def)

lemma findFlagValue_bool_parses:
  assumes "Kind t = KBool"
  shows "\<exists>s b remain. findFlagValue vals t = Inr (s, remain) \<and> ParseBool s = Inr b"
proof (cases "length vals > 0 \<and> \<not> HasPrefix (vals ! 0) ''-'' \<and> \<not> isl (ParseBool (vals ! 0))")
  case True
  then obtain b where "ParseBool (vals ! 0) = Inr b"
    by (cases "ParseBool (vals ! 0)") auto
  moreover from True have "vals ! 0 \<noteq> []" using ParseBool_empty by auto
  ultimately show ?thesis using True assms by (auto simp: findFlagValue_def Let_def)
next
  case False
  then have "findFlagValue vals t = Inr (FormatBool True, vals)"
    using assms by (auto simp: findFlagValue_def Let_def)
  then show ?thesis using ParseBool_true by blast
qed

text \<open>
  Claim C1 says that every boolean field is set to the literal that follows the flag, or
  to true. The program takes a field for boolean by its kind, in \<open>findFlagValue\<close> and in
  \<open>stringToType\<close>, and \<open>stringToType\<close> returns a value of the predeclared type \<open>bool\<close>
  for it. For a field of a defined type of that kind with no \<open>UnmarshalText\<close>, such as
  \<open>type Flag bool\<close>, \<open>Set\<close> refuses that value: at a flag of such a field the loop
  panics, whatever follows the flag, and the field is never set.
\<close>

theorem C1_defined_bool_panics:
  assumes "i < length args" and "HasPrefix (args ! i) ''-''"
    and "newFlagField (TrimLeft (args ! i) ''-'') v = Ok (v1, Inr fld)"
    and "Kind (FlagType fld) = KBool" and "FlagType fld \<noteq> TBool"
    and "asTextUnmarshaler (FlagType fld) = None"
  shows "ApplyTo_loop x args i v unused
     = Panic (''reflect.Set: value of type bool is not assignable to type ''
                @ TypeString (FlagType fld))"
proof -
  from findFlagValue_bool_parses [OF assms(4), of "drop (i + 1) args"] obtain s b remain where
    fv: "findFlagValue (drop (i + 1) args) (FlagType fld) = Inr (s, remain)"
    and pb: "ParseBool s = Inr b"
    by blast
  from newFlagField_handle [OF assms(3)] obtain t sv fv0 where
    v1: "v1 = Some (t, sv)" and f: "FieldByIndex t sv (fldIndex fld) = Ok (fldType fld, fv0)"
    by blast
  have "setValue x s (fldType fld) fv0
     = Panic (''reflect.Set: value of type bool is not assignable to type ''
                @ TypeString (fldType fld))"
    using setValue_defined_bool [OF _ _ _ pb] assms(4,5,6) by (simp add: FlagType_def)
  then have sv: "SetValue x fld s v1
     = Panic (''reflect.Set: value of type bool is not assignable to type ''
                @ TypeString (FlagType fld))"
    by (simp add: SetValue_def v1 atIndex_putAt [OF f] FlagType_def)
  show ?thesis
    using assms(1,2,3) fv sv by (subst ApplyTo_loop.simps) (simp add: Let_def)
qed

theorem C1_defined_bool_panics_witness:
  "ApplyTo_loop exampleExtern [''-verbose''] 0 (Some (exampleFlags, zero exampleFlags)) None
     = Panic ''reflect.Set: value of type bool is not assignable to type Flag''
   \<and> ApplyTo_loop exampleExtern [''-verbose'', ''false''] 0
       (Some (exampleFlags, zero exampleFlags)) None
     = Panic ''reflect.Set: value of type bool is not assignable to type Flag''"
proof -
  let ?fld = "\<lparr>fldType = TNamed ''Flag'' False TBool, fldIndex = [0]\<rparr>"
  let ?v = "Some (exampleFlags, zero exampleFlags)"
  have n: "newFlagField ''verbose'' ?v = Ok (?v, Inr ?fld)"
    by (simp add: run_simps exampleFlags_def)
  have 1: "0 < length [''-verbose'']" "0 < length [''-verbose'', ''false'']" by simp_all
  have 2: "HasPrefix ([''-verbose''] ! 0) ''-''" "HasPrefix ([''-verbose'', ''false''] ! 0) ''-''"
    by (simp_all add: HasPrefix_def)
  have 3: "newFlagField (TrimLeft ([''-verbose''] ! 0) ''-'') ?v = Ok (?v, Inr ?fld)"
    "newFlagField (TrimLeft ([''-verbose'', ''false''] ! 0) ''-'') ?v = Ok (?v, Inr ?fld)"
    using n by (simp_all add: TrimLeft_def)
  have 4: "Kind (FlagType ?fld) = KBool" by (simp add: FlagType_def)
  have 5: "FlagType ?fld \<noteq> TBool" by (simp add: FlagType_def)
  have 6: "asTextUnmarshaler (FlagType ?fld) = None"
    by (simp add: FlagType_def asTextUnmarshaler_def)
  have t: "TypeString (FlagType ?fld) = ''Flag''" by (simp add: FlagType_def)
  show ?thesis
    using C1_defined_bool_panics [OF 1(1) 2(1) 3(1) 4 5 6, of exampleExtern None]
      C1_defined_bool_panics [OF 1(2) 2(2) 3(2) 4 5 6, of exampleExtern None]
    unfolding t by simp
qed

subsection \<open>Promoted sub-structures\<close>






















end
